theory Spec2Isabelle
  imports Main "HOL-Library.Word"
begin

unbundle bit_operations_syntax

section \<open>The operator definition command (src/backend/commands/operatorcmds.c)\<close>

subsection \<open>Data of the command\<close>

text \<open>
  An \<open>Oid\<close> identifies a catalog object. The command never computes with one; it only
  compares it with \<open>InvalidOid\<close> and \<open>FLOAT8OID\<close>.
\<close>

type_synonym Oid = nat

datatype AclResult = ACLCHECK_OK | ACLCHECK_NO_PRIV | ACLCHECK_NOT_OWNER

datatype AclMode = ACL_CREATE | ACL_USAGE | ACL_EXECUTE

datatype AclObjectKind = ACL_KIND_NAMESPACE | ACL_KIND_PROC

datatype sqlstate =
    ERRCODE_INVALID_FUNCTION_DEFINITION
  | ERRCODE_INVALID_OBJECT_DEFINITION
  | ERRCODE_SYNTAX_ERROR

text \<open>
  Every way the command can be left by a raised error. \<open>ereport_ERROR\<close> is
  \<^verbatim>\<open>ereport(ERROR, (errcode(c), errmsg(m)))\<close> with the message already formatted;
  \<open>aclcheck_error\<close> and \<open>aclcheck_error_type\<close> are the two permission failure reporters
  the command calls when a check did not return \<open>ACLCHECK_OK\<close>; \<open>collaborator_error\<close> is
  an error raised inside a routine the command calls (name resolution, parameter
  decoding, function lookup, \<open>OperatorCreate\<close>).
\<close>

datatype error =
    ereport_ERROR sqlstate string
  | aclcheck_error AclResult AclObjectKind string
  | aclcheck_error_type AclResult Oid
  | collaborator_error string

text \<open>\<^verbatim>\<open>ereport(WARNING, ...)\<close>: reported, and the command goes on.\<close>

datatype notice = ereport_WARNING sqlstate string

record TypeName =
  tn_names :: "string list"
  setof :: bool

text \<open>The argument of a definition element, as the grammar can supply it.\<close>

datatype defarg =
    ArgTypeName TypeName
  | ArgString string
  | ArgList "string list"
  | ArgInteger int

record DefElem =
  defname :: string
  arg :: "defarg option"

record ObjectAddress =
  classId :: Oid
  objectId :: Oid
  objectSubId :: int

text \<open>
  The routines and constants \<open>DefineOperator\<close> uses and this file does not define. The
  lookups read the catalog \<open>'cat\<close>; \<open>OperatorCreate\<close> alone returns a new one. A routine
  that can raise returns \<open>Inl\<close> of the error. \<open>LookupFuncName c name nargs argtypes
  noError\<close> receives the first \<open>nargs\<close> elements of the C array \<open>typeid__\<close> as the list
  \<open>argtypes\<close>.
\<close>

record 'cat services =
  InvalidOid :: Oid
  INTERNALOID :: Oid
  OIDOID :: Oid
  INT4OID :: Oid
  INT2OID :: Oid
  FLOAT8OID :: Oid
  GetUserId :: Oid
  QualifiedNameGetCreationNamespace :: "'cat \<Rightarrow> string list \<Rightarrow> error + (Oid \<times> string)"
  pg_namespace_aclcheck :: "'cat \<Rightarrow> Oid \<Rightarrow> Oid \<Rightarrow> AclMode \<Rightarrow> AclResult"
  get_namespace_name :: "'cat \<Rightarrow> Oid \<Rightarrow> string"
  pg_strcasecmp :: "string \<Rightarrow> string \<Rightarrow> int"
  defGetTypeName :: "DefElem \<Rightarrow> error + TypeName"
  defGetQualifiedName :: "DefElem \<Rightarrow> error + string list"
  defGetBoolean :: "DefElem \<Rightarrow> error + bool"
  typenameTypeId :: "'cat \<Rightarrow> TypeName \<Rightarrow> error + Oid"
  pg_type_aclcheck :: "'cat \<Rightarrow> Oid \<Rightarrow> Oid \<Rightarrow> AclMode \<Rightarrow> AclResult"
  LookupFuncName :: "'cat \<Rightarrow> string list \<Rightarrow> nat \<Rightarrow> Oid list \<Rightarrow> bool \<Rightarrow> error + Oid"
  pg_proc_aclcheck :: "'cat \<Rightarrow> Oid \<Rightarrow> Oid \<Rightarrow> AclMode \<Rightarrow> AclResult"
  get_func_rettype :: "'cat \<Rightarrow> Oid \<Rightarrow> Oid"
  NameListToString :: "string list \<Rightarrow> string"
  OperatorCreate :: "string \<Rightarrow> Oid \<Rightarrow> Oid \<Rightarrow> Oid \<Rightarrow> Oid \<Rightarrow> string list \<Rightarrow> string list
     \<Rightarrow> Oid \<Rightarrow> Oid \<Rightarrow> bool \<Rightarrow> bool \<Rightarrow> 'cat \<Rightarrow> (error + ObjectAddress) \<times> 'cat"

definition OidIsValid :: "'cat services \<Rightarrow> Oid \<Rightarrow> bool" where
  "OidIsValid E oid = (oid \<noteq> InvalidOid E)"

text \<open>The local variables of \<open>DefineOperator\<close> that the parameter loop assigns.\<close>

record opr_locals =
  canMerge :: bool
  canHash :: bool
  functionName :: "string list"
  typeName1 :: "TypeName option"
  typeName2 :: "TypeName option"
  commutatorName :: "string list"
  negatorName :: "string list"
  restrictionName :: "string list"
  joinName :: "string list"

definition initial_locals :: opr_locals where
  "initial_locals =
     \<lparr>canMerge = False, canHash = False, functionName = [], typeName1 = None,
      typeName2 = None, commutatorName = [], negatorName = [], restrictionName = [],
      joinName = []\<rparr>"

definition dquote :: string where
  "dquote = [CHR 0x22]"

definition setof_not_allowed :: error where
  "setof_not_allowed =
     ereport_ERROR ERRCODE_INVALID_FUNCTION_DEFINITION
       ''SETOF type not allowed for operator__ argument''"

definition attribute_not_recognized :: "string \<Rightarrow> notice" where
  "attribute_not_recognized n =
     ereport_WARNING ERRCODE_SYNTAX_ERROR
       (''operator__ attribute '' @ dquote @ n @ dquote @ '' not recognized'')"

subsection \<open>The parameter loop (lines 100 to 148)\<close>

text \<open>
  One pass of the loop body on the element \<open>defel\<close>: the chain of comparisons in the
  order of the source. The result is the error raised, or the locals after the pass with
  the warnings it reported.
\<close>

definition DefineOperator_defel ::
  "'cat services \<Rightarrow> DefElem \<Rightarrow> opr_locals \<Rightarrow> error + (opr_locals \<times> notice list)" where
  "DefineOperator_defel E defel L =
    (if pg_strcasecmp E (defname defel) ''leftarg'' = 0 then
       (case defGetTypeName E defel of
          Inl e \<Rightarrow> Inl e
        | Inr tn \<Rightarrow>
            if setof tn then Inl setof_not_allowed
            else Inr (L\<lparr>typeName1 := Some tn\<rparr>, []))
     else if pg_strcasecmp E (defname defel) ''rightarg'' = 0 then
       (case defGetTypeName E defel of
          Inl e \<Rightarrow> Inl e
        | Inr tn \<Rightarrow>
            if setof tn then Inl setof_not_allowed
            else Inr (L\<lparr>typeName2 := Some tn\<rparr>, []))
     else if pg_strcasecmp E (defname defel) ''procedure'' = 0 then
       (case defGetQualifiedName E defel of
          Inl e \<Rightarrow> Inl e | Inr n \<Rightarrow> Inr (L\<lparr>functionName := n\<rparr>, []))
     else if pg_strcasecmp E (defname defel) ''commutator'' = 0 then
       (case defGetQualifiedName E defel of
          Inl e \<Rightarrow> Inl e | Inr n \<Rightarrow> Inr (L\<lparr>commutatorName := n\<rparr>, []))
     else if pg_strcasecmp E (defname defel) ''negator'' = 0 then
       (case defGetQualifiedName E defel of
          Inl e \<Rightarrow> Inl e | Inr n \<Rightarrow> Inr (L\<lparr>negatorName := n\<rparr>, []))
     else if pg_strcasecmp E (defname defel) ''restrict'' = 0 then
       (case defGetQualifiedName E defel of
          Inl e \<Rightarrow> Inl e | Inr n \<Rightarrow> Inr (L\<lparr>restrictionName := n\<rparr>, []))
     else if pg_strcasecmp E (defname defel) ''join'' = 0 then
       (case defGetQualifiedName E defel of
          Inl e \<Rightarrow> Inl e | Inr n \<Rightarrow> Inr (L\<lparr>joinName := n\<rparr>, []))
     else if pg_strcasecmp E (defname defel) ''hashes'' = 0 then
       (case defGetBoolean E defel of
          Inl e \<Rightarrow> Inl e | Inr b \<Rightarrow> Inr (L\<lparr>canHash := b\<rparr>, []))
     else if pg_strcasecmp E (defname defel) ''merges'' = 0 then
       (case defGetBoolean E defel of
          Inl e \<Rightarrow> Inl e | Inr b \<Rightarrow> Inr (L\<lparr>canMerge := b\<rparr>, []))
     else if pg_strcasecmp E (defname defel) ''sort1'' = 0 then Inr (L\<lparr>canMerge := True\<rparr>, [])
     else if pg_strcasecmp E (defname defel) ''sort2'' = 0 then Inr (L\<lparr>canMerge := True\<rparr>, [])
     else if pg_strcasecmp E (defname defel) ''ltcmp'' = 0 then Inr (L\<lparr>canMerge := True\<rparr>, [])
     else if pg_strcasecmp E (defname defel) ''gtcmp'' = 0 then Inr (L\<lparr>canMerge := True\<rparr>, [])
     else Inr (L, [attribute_not_recognized (defname defel)]))"

text \<open>
  \<^verbatim>\<open>foreach(pl, parameters)\<close>: the passes in list order, stopped by the first error. The
  warnings reported before an error stay reported.
\<close>

fun DefineOperator_foreach ::
  "'cat services \<Rightarrow> DefElem list \<Rightarrow> opr_locals \<Rightarrow> notice list
     \<Rightarrow> (error + opr_locals) \<times> notice list" where
  "DefineOperator_foreach E [] L ws = (Inr L, ws)"
| "DefineOperator_foreach E (defel # pl) L ws =
     (case DefineOperator_defel E defel L of
        Inl e \<Rightarrow> (Inl e, ws)
      | Inr (L', w) \<Rightarrow> DefineOperator_foreach E pl L' (ws @ w))"

text \<open>The attribute names the loop compares with, in the order of its comparisons.\<close>

definition operator_attributes :: "string list" where
  "operator_attributes =
    [''leftarg'', ''rightarg'', ''procedure'', ''commutator'', ''negator'', ''restrict'',
     ''join'', ''hashes'', ''merges'', ''sort1'', ''sort2'', ''ltcmp'', ''gtcmp'']"

subsection \<open>The checks after the loop\<close>

text \<open>Lines 88 to 95: the creation namespace, and the right to create in it.\<close>

definition DefineOperator_namespace ::
  "'cat services \<Rightarrow> 'cat \<Rightarrow> string list \<Rightarrow> error + (Oid \<times> string)" where
  "DefineOperator_namespace E cat names =
    (case QualifiedNameGetCreationNamespace E cat names of
       Inl e \<Rightarrow> Inl e
     | Inr (oprNamespace, oprName) \<Rightarrow>
         let aclresult = pg_namespace_aclcheck E cat oprNamespace (GetUserId E) ACL_CREATE in
         if aclresult \<noteq> ACLCHECK_OK then
           Inl (aclcheck_error aclresult ACL_KIND_NAMESPACE
                  (get_namespace_name E cat oprNamespace))
         else Inr (oprNamespace, oprName))"

definition procedure_must_be_specified :: error where
  "procedure_must_be_specified =
     ereport_ERROR ERRCODE_INVALID_FUNCTION_DEFINITION
       ''operator__ procedure must be specified''"

definition leftarg_or_rightarg_must_be_specified :: error where
  "leftarg_or_rightarg_must_be_specified =
     ereport_ERROR ERRCODE_INVALID_FUNCTION_DEFINITION
       ''at least one of leftarg or rightarg must be specified''"

text \<open>
  Lines 159 to 162: \<^verbatim>\<open>if (typeName) typeId = typenameTypeId(NULL, typeName)\<close>, on a
  variable initialised to \<open>InvalidOid\<close>.
\<close>

definition typeName_to_typeId ::
  "'cat services \<Rightarrow> 'cat \<Rightarrow> TypeName option \<Rightarrow> error + Oid" where
  "typeName_to_typeId E cat typeName =
    (case typeName of
       None \<Rightarrow> Inr (InvalidOid E)
     | Some tn \<Rightarrow> typenameTypeId E cat tn)"

text \<open>
  Lines 150 to 181: the required definitions, the type names turned into type OIDs, and
  the right to use each operand type that was named.
\<close>

definition DefineOperator_types ::
  "'cat services \<Rightarrow> 'cat \<Rightarrow> opr_locals \<Rightarrow> error + (Oid \<times> Oid)" where
  "DefineOperator_types E cat L =
    (if functionName L = [] then Inl procedure_must_be_specified
     else
       case typeName_to_typeId E cat (typeName1 L) of
         Inl e \<Rightarrow> Inl e
       | Inr typeId1 \<Rightarrow>
       case typeName_to_typeId E cat (typeName2 L) of
         Inl e \<Rightarrow> Inl e
       | Inr typeId2 \<Rightarrow>
       if \<not> OidIsValid E typeId1 \<and> \<not> OidIsValid E typeId2 then
         Inl leftarg_or_rightarg_must_be_specified
       else if typeName1 L \<noteq> None
               \<and> pg_type_aclcheck E cat typeId1 (GetUserId E) ACL_USAGE \<noteq> ACLCHECK_OK then
         Inl (aclcheck_error_type
                (pg_type_aclcheck E cat typeId1 (GetUserId E) ACL_USAGE) typeId1)
       else if typeName2 L \<noteq> None
               \<and> pg_type_aclcheck E cat typeId2 (GetUserId E) ACL_USAGE \<noteq> ACLCHECK_OK then
         Inl (aclcheck_error_type
                (pg_type_aclcheck E cat typeId2 (GetUserId E) ACL_USAGE) typeId2)
       else Inr (typeId1, typeId2))"

text \<open>
  Lines 186 to 201: the argument count and the argument types of the underlying
  function, from which of the two operand types are valid.
\<close>

definition function_signature :: "'cat services \<Rightarrow> Oid \<Rightarrow> Oid \<Rightarrow> nat \<times> Oid list" where
  "function_signature E typeId1 typeId2 =
    (if \<not> OidIsValid E typeId1 then (1, [typeId2])
     else if \<not> OidIsValid E typeId2 then (1, [typeId1])
     else (2, [typeId1, typeId2]))"

text \<open>
  Lines 183 to 217: the underlying function, the right to execute it and the right to
  use its return type.
\<close>

definition DefineOperator_function ::
  "'cat services \<Rightarrow> 'cat \<Rightarrow> opr_locals \<Rightarrow> Oid \<Rightarrow> Oid \<Rightarrow> error + Oid" where
  "DefineOperator_function E cat L typeId1 typeId2 =
    (case function_signature E typeId1 typeId2 of (nargs, typeid) \<Rightarrow>
     case LookupFuncName E cat (functionName L) nargs typeid False of
       Inl e \<Rightarrow> Inl e
     | Inr functionOid \<Rightarrow>
         if pg_proc_aclcheck E cat functionOid (GetUserId E) ACL_EXECUTE \<noteq> ACLCHECK_OK then
           Inl (aclcheck_error (pg_proc_aclcheck E cat functionOid (GetUserId E) ACL_EXECUTE)
                  ACL_KIND_PROC (NameListToString E (functionName L)))
         else
           let rettype = get_func_rettype E cat functionOid in
           if pg_type_aclcheck E cat rettype (GetUserId E) ACL_USAGE \<noteq> ACLCHECK_OK then
             Inl (aclcheck_error_type
                    (pg_type_aclcheck E cat rettype (GetUserId E) ACL_USAGE) rettype)
           else Inr functionOid)"

definition estimator_must_return_float8 :: "string \<Rightarrow> string \<Rightarrow> error" where
  "estimator_must_return_float8 which n =
     ereport_ERROR ERRCODE_INVALID_OBJECT_DEFINITION
       (which @ '' estimator function '' @ n @ '' must return type ''
          @ dquote @ ''float8'' @ dquote)"

text \<open>Lines 219 to 245: the restriction estimator, if one was named.\<close>

definition DefineOperator_restrict ::
  "'cat services \<Rightarrow> 'cat \<Rightarrow> opr_locals \<Rightarrow> error + Oid" where
  "DefineOperator_restrict E cat L =
    (if restrictionName L \<noteq> [] then
       case LookupFuncName E cat (restrictionName L) 4
              [INTERNALOID E, OIDOID E, INTERNALOID E, INT4OID E] False of
         Inl e \<Rightarrow> Inl e
       | Inr restrictionOid \<Rightarrow>
           if get_func_rettype E cat restrictionOid \<noteq> FLOAT8OID E then
             Inl (estimator_must_return_float8 ''restriction''
                    (NameListToString E (restrictionName L)))
           else if pg_proc_aclcheck E cat restrictionOid (GetUserId E) ACL_EXECUTE
                     \<noteq> ACLCHECK_OK then
             Inl (aclcheck_error
                    (pg_proc_aclcheck E cat restrictionOid (GetUserId E) ACL_EXECUTE)
                    ACL_KIND_PROC (NameListToString E (restrictionName L)))
           else Inr restrictionOid
     else Inr (InvalidOid E))"

text \<open>
  Lines 263 to 268: the join estimator is looked up with five arguments, then with the
  first four, both times without an error when it is missing, then with five again so
  that the error names the five-argument signature.
\<close>

definition join_estimator_lookup ::
  "'cat services \<Rightarrow> 'cat \<Rightarrow> string list \<Rightarrow> error + Oid" where
  "join_estimator_lookup E cat n =
    (let typeid = [INTERNALOID E, OIDOID E, INTERNALOID E, INT2OID E, INTERNALOID E] in
     case LookupFuncName E cat n 5 typeid True of
       Inl e \<Rightarrow> Inl e
     | Inr joinOid5 \<Rightarrow>
     case (if \<not> OidIsValid E joinOid5 then LookupFuncName E cat n 4 (take 4 typeid) True
           else Inr joinOid5) of
       Inl e \<Rightarrow> Inl e
     | Inr joinOid4 \<Rightarrow>
         if \<not> OidIsValid E joinOid4 then LookupFuncName E cat n 5 typeid False
         else Inr joinOid4)"

text \<open>Lines 247 to 284: the join estimator, if one was named.\<close>

definition DefineOperator_join ::
  "'cat services \<Rightarrow> 'cat \<Rightarrow> opr_locals \<Rightarrow> error + Oid" where
  "DefineOperator_join E cat L =
    (if joinName L \<noteq> [] then
       case join_estimator_lookup E cat (joinName L) of
         Inl e \<Rightarrow> Inl e
       | Inr joinOid \<Rightarrow>
           if get_func_rettype E cat joinOid \<noteq> FLOAT8OID E then
             Inl (estimator_must_return_float8 ''join'' (NameListToString E (joinName L)))
           else if pg_proc_aclcheck E cat joinOid (GetUserId E) ACL_EXECUTE
                     \<noteq> ACLCHECK_OK then
             Inl (aclcheck_error (pg_proc_aclcheck E cat joinOid (GetUserId E) ACL_EXECUTE)
                    ACL_KIND_PROC (NameListToString E (joinName L)))
           else Inr joinOid
     else Inr (InvalidOid E))"

subsection \<open>The command\<close>

text \<open>
  \<open>DefineOperator E names parameters cat\<close> is the outcome of the command (the error
  raised, or the address \<open>OperatorCreate\<close> returned), the catalog after it and the
  warnings it reported. The steps are those of the source, in its order; the first error
  ends the command.
\<close>

definition DefineOperator ::
  "'cat services \<Rightarrow> string list \<Rightarrow> DefElem list \<Rightarrow> 'cat
     \<Rightarrow> (error + ObjectAddress) \<times> 'cat \<times> notice list" where
  "DefineOperator E names parameters cat =
    (case DefineOperator_namespace E cat names of
       Inl e \<Rightarrow> (Inl e, cat, [])
     | Inr (oprNamespace, oprName) \<Rightarrow>
     case DefineOperator_foreach E parameters initial_locals [] of
       (Inl e, ws) \<Rightarrow> (Inl e, cat, ws)
     | (Inr L, ws) \<Rightarrow>
     case DefineOperator_types E cat L of
       Inl e \<Rightarrow> (Inl e, cat, ws)
     | Inr (typeId1, typeId2) \<Rightarrow>
     case DefineOperator_function E cat L typeId1 typeId2 of
       Inl e \<Rightarrow> (Inl e, cat, ws)
     | Inr functionOid \<Rightarrow>
     case DefineOperator_restrict E cat L of
       Inl e \<Rightarrow> (Inl e, cat, ws)
     | Inr restrictionOid \<Rightarrow>
     case DefineOperator_join E cat L of
       Inl e \<Rightarrow> (Inl e, cat, ws)
     | Inr joinOid \<Rightarrow>
     case OperatorCreate E oprName oprNamespace typeId1 typeId2 functionOid
            (commutatorName L) (negatorName L) restrictionOid joinOid
            (canMerge L) (canHash L) cat of
       (r, cat') \<Rightarrow> (r, cat', ws))"

subsection \<open>A small catalog\<close>

text \<open>
  A concrete catalog and concrete collaborators, on which the theorems below are
  instantiated. The catalog is the list of operators created so far. The schema
  \<open>public\<close> is namespace 2200; the types are \<open>int4\<close> (23), \<open>bool\<close> (16) and \<open>float8\<close>
  (701); the functions are those of \<open>sample_functions\<close>. \<open>sample_services uid denied\<close> is
  the session of user \<open>uid\<close>, who lacks every permission on the objects listed in
  \<open>denied\<close>.
\<close>

type_synonym sample_catalog = "(string \<times> Oid \<times> Oid \<times> Oid \<times> Oid) list"

text \<open>
  Comparison of two names without regard to the case of the ASCII letters: an upper case
  letter is one of the 26 codes from 0x41 on, and its lower case twin has bit 5 set.
\<close>

fun sample_tolower :: "char \<Rightarrow> char" where
  "sample_tolower (Char b0 b1 b2 b3 b4 b5 b6 b7) =
    (if \<not> b7 \<and> b6 \<and> \<not> b5 \<and> (b0 \<or> b1 \<or> b2 \<or> b3 \<or> b4)
        \<and> \<not> (b4 \<and> b3 \<and> (b2 \<or> (b1 \<and> b0)))
     then Char b0 b1 b2 b3 b4 True b6 b7
     else Char b0 b1 b2 b3 b4 b5 b6 b7)"

fun sample_strcasecmp :: "string \<Rightarrow> string \<Rightarrow> int" where
  "sample_strcasecmp [] [] = 0"
| "sample_strcasecmp [] (c2 # s2) = - 1"
| "sample_strcasecmp (c1 # s1) [] = 1"
| "sample_strcasecmp (c1 # s1) (c2 # s2) =
    (if sample_tolower c1 = sample_tolower c2 then sample_strcasecmp s1 s2 else 1)"

text \<open>Name, argument types, OID and return type of each function.\<close>

definition sample_functions :: "(string list \<times> Oid list \<times> Oid \<times> Oid) list" where
  "sample_functions =
    [([''int4pl''], [23, 23], 177, 23),
     ([''int4um''], [23], 212, 23),
     ([''int4eq''], [23, 23], 65, 16),
     ([''eqsel''], [2281, 26, 2281, 23], 101, 701),
     ([''eqjoinsel''], [2281, 26, 2281, 21, 2281], 105, 701),
     ([''oldjoinsel''], [2281, 26, 2281, 21], 106, 701),
     ([''intsel''], [2281, 26, 2281, 23], 9001, 23),
     ([''intjoinsel''], [2281, 26, 2281, 21, 2281], 9002, 23)]"

fun sample_lookup ::
  "(string list \<times> Oid list \<times> Oid \<times> Oid) list \<Rightarrow> string list \<Rightarrow> Oid list \<Rightarrow> Oid option" where
  "sample_lookup [] n ts = None"
| "sample_lookup ((n', ts', oid, rt) # fs) n ts =
     (if n' = n \<and> ts' = ts then Some oid else sample_lookup fs n ts)"

fun sample_rettype :: "(string list \<times> Oid list \<times> Oid \<times> Oid) list \<Rightarrow> Oid \<Rightarrow> Oid" where
  "sample_rettype [] oid = 0"
| "sample_rettype ((n', ts', oid', rt) # fs) oid =
     (if oid' = oid then rt else sample_rettype fs oid)"

definition sample_acl :: "(AclObjectKind option \<times> Oid) list \<Rightarrow> AclObjectKind option \<Rightarrow> Oid
    \<Rightarrow> AclResult" where
  "sample_acl denied kind oid =
    (if (kind, oid) \<in> set denied then ACLCHECK_NO_PRIV else ACLCHECK_OK)"

fun sample_NameListToString :: "string list \<Rightarrow> string" where
  "sample_NameListToString [] = []"
| "sample_NameListToString [n] = n"
| "sample_NameListToString (n # ns) = n @ ''.'' @ sample_NameListToString ns"

definition sample_services ::
  "Oid \<Rightarrow> (AclObjectKind option \<times> Oid) list \<Rightarrow> sample_catalog services" where
  "sample_services uid denied =
    \<lparr>InvalidOid = 0, INTERNALOID = 2281, OIDOID = 26, INT4OID = 23, INT2OID = 21,
     FLOAT8OID = 701,
     GetUserId = uid,
     QualifiedNameGetCreationNamespace = (\<lambda>cat ns.
       case ns of
         [n] \<Rightarrow> Inr (2200, n)
       | [s, n] \<Rightarrow> if s = ''public'' then Inr (2200, n)
                   else Inl (collaborator_error ''schema does not exist'')
       | _ \<Rightarrow> Inl (collaborator_error ''improper qualified name'')),
     pg_namespace_aclcheck = (\<lambda>cat oid roleid mode. sample_acl denied (Some ACL_KIND_NAMESPACE) oid),
     get_namespace_name = (\<lambda>cat oid. if oid = 2200 then ''public'' else []),
     pg_strcasecmp = sample_strcasecmp,
     defGetTypeName = (\<lambda>d.
       case arg d of
         Some (ArgTypeName tn) \<Rightarrow> Inr tn
       | _ \<Rightarrow> Inl (collaborator_error ''argument must be a type name'')),
     defGetQualifiedName = (\<lambda>d.
       case arg d of
         Some (ArgTypeName tn) \<Rightarrow> Inr (tn_names tn)
       | Some (ArgString s) \<Rightarrow> Inr [s]
       | Some (ArgList l) \<Rightarrow> Inr l
       | _ \<Rightarrow> Inl (collaborator_error ''argument must be a name'')),
     defGetBoolean = (\<lambda>d.
       case arg d of
         None \<Rightarrow> Inr True
       | Some (ArgInteger i) \<Rightarrow>
           if i = 0 then Inr False else if i = 1 then Inr True
           else Inl (collaborator_error ''requires a Boolean value'')
       | Some (ArgString s) \<Rightarrow>
           if s = ''true'' then Inr True else if s = ''false'' then Inr False
           else Inl (collaborator_error ''requires a Boolean value'')
       | _ \<Rightarrow> Inl (collaborator_error ''requires a Boolean value'')),
     typenameTypeId = (\<lambda>cat tn.
       if tn_names tn = [''int4''] then Inr 23
       else if tn_names tn = [''bool''] then Inr 16
       else if tn_names tn = [''float8''] then Inr 701
       else Inl (collaborator_error ''type does not exist'')),
     pg_type_aclcheck = (\<lambda>cat oid roleid mode. sample_acl denied None oid),
     LookupFuncName = (\<lambda>cat n nargs argtypes noError.
       case sample_lookup sample_functions n argtypes of
         Some oid \<Rightarrow> Inr oid
       | None \<Rightarrow> if noError then Inr 0
                 else Inl (collaborator_error ''function does not exist'')),
     pg_proc_aclcheck = (\<lambda>cat oid roleid mode. sample_acl denied (Some ACL_KIND_PROC) oid),
     get_func_rettype = (\<lambda>cat oid. sample_rettype sample_functions oid),
     NameListToString = sample_NameListToString,
     OperatorCreate = (\<lambda>oprName oprNamespace leftTypeId rightTypeId procedureId
         commutatorName negatorName restrictionId joinId canMerge canHash cat.
       (Inr \<lparr>classId = 2617, objectId = 16384 + length cat, objectSubId = 0\<rparr>,
        cat @ [(oprName, oprNamespace, leftTypeId, rightTypeId, procedureId)]))\<rparr>"

text \<open>The type name \<open>n\<close>, and the elements of a parameter list.\<close>

definition sample_type :: "string \<Rightarrow> bool \<Rightarrow> defarg option" where
  "sample_type n s = Some (ArgTypeName \<lparr>tn_names = [n], setof = s\<rparr>)"

definition sample_defel :: "string \<Rightarrow> defarg option \<Rightarrow> DefElem" where
  "sample_defel n a = \<lparr>defname = n, arg = a\<rparr>"

text \<open>
  A parameter list naming both operand types, the procedure \<open>p\<close>, the restriction
  estimator \<open>r\<close> and the join estimator \<open>j\<close>, and the local variables the loop leaves
  for it.
\<close>

definition sample_parameters ::
  "string \<Rightarrow> string \<Rightarrow> string \<Rightarrow> string \<Rightarrow> string \<Rightarrow> DefElem list" where
  "sample_parameters t1 t2 p r j =
    [sample_defel ''leftarg'' (sample_type t1 False),
     sample_defel ''rightarg'' (sample_type t2 False),
     sample_defel ''procedure'' (Some (ArgString p)),
     sample_defel ''restrict'' (Some (ArgString r)),
     sample_defel ''join'' (Some (ArgString j))]"

definition sample_locals ::
  "string \<Rightarrow> string \<Rightarrow> string \<Rightarrow> string \<Rightarrow> string \<Rightarrow> opr_locals" where
  "sample_locals t1 t2 p r j =
    \<lparr>canMerge = False, canHash = False, functionName = [p],
     typeName1 = Some \<lparr>tn_names = [t1], setof = False\<rparr>,
     typeName2 = Some \<lparr>tn_names = [t2], setof = False\<rparr>,
     commutatorName = [], negatorName = [], restrictionName = [r], joinName = [j]\<rparr>"

section \<open>The tree traversal engine (src/include/nodes/nodeFuncs.h)\<close>

subsection \<open>The flag bits of the query traversals (lines 19 to 26)\<close>

text \<open>
  The seven \<^verbatim>\<open>#define\<close>s of the header, as the \<^verbatim>\<open>int flags\<close> argument of
  \<open>query_tree_walker\<close> and \<open>query_tree_mutator\<close> carries them.
\<close>

definition QTW_IGNORE_RT_SUBQUERIES :: "32 word" where
  "QTW_IGNORE_RT_SUBQUERIES = 0x01"

definition QTW_IGNORE_CTE_SUBQUERIES :: "32 word" where
  "QTW_IGNORE_CTE_SUBQUERIES = 0x02"

definition QTW_IGNORE_RC_SUBQUERIES :: "32 word" where
  "QTW_IGNORE_RC_SUBQUERIES = 0x03"

definition QTW_IGNORE_JOINALIASES :: "32 word" where
  "QTW_IGNORE_JOINALIASES = 0x04"

definition QTW_IGNORE_RANGE_TABLE :: "32 word" where
  "QTW_IGNORE_RANGE_TABLE = 0x08"

definition QTW_EXAMINE_RTES :: "32 word" where
  "QTW_EXAMINE_RTES = 0x10"

definition QTW_DONT_COPY_QUERY :: "32 word" where
  "QTW_DONT_COPY_QUERY = 0x20"

text \<open>
  The six flags of one bit each; \<open>QTW_IGNORE_RC_SUBQUERIES\<close>, commented
  \<^verbatim>\<open>both of above\<close> in the header, is not among them.
\<close>

definition scope_flags :: "32 word list" where
  "scope_flags =
    [QTW_IGNORE_RT_SUBQUERIES, QTW_IGNORE_CTE_SUBQUERIES, QTW_IGNORE_JOINALIASES,
     QTW_IGNORE_RANGE_TABLE, QTW_EXAMINE_RTES, QTW_DONT_COPY_QUERY]"

text \<open>
  A caller combines flags with the C operator \<^verbatim>\<open>|\<close>.
\<close>

definition combine_flags :: "32 word list \<Rightarrow> 32 word" where
  "combine_flags fs = foldr (OR) fs 0"

subsection \<open>Nodes\<close>

text \<open>
  Modelled from the spec: the node model of section 3. The header includes
  \<^verbatim>\<open>nodes/parsenodes.h\<close>, which is not among the sources, so the node kinds and their
  child slots are those the specification lists: leaf forms (column reference, literal
  constant, parameter placeholder), composite forms (operator call, function call, boolean
  combination, CASE, array and row constructors, subquery link, aggregate call, window
  function call, type coercion), the target entry wrapper and the range table entry.
  \<open>T_Other\<close> stands for every kind the engine has no case for.
\<close>

datatype NodeTag =
    T_Var | T_Const | T_Param
  | T_OpExpr | T_FuncExpr | T_BoolExpr | T_CaseExpr | T_ArrayExpr | T_RowExpr
  | T_SubLink | T_Aggref | T_WindowFunc | T_RelabelType
  | T_TargetEntry | T_RangeTblEntry
  | T_Other nat

text \<open>
  Modelled from the spec: a node carries its kind, its scalar fields that are no children,
  and its child slots, "each slot holding either a single optional child node, an ordered
  sequence of child nodes, or an ordered sequence of (condition, result) pairs" (section 3).
  The node definitions themselves are not among the sources.
\<close>

datatype node = Node (nodeTag: NodeTag) (fields: "int list") (slots: "slot list")
and slot =
    Single "node option"
  | Sequence "node list"
  | Pairs "(node \<times> node) list"

text \<open>
  Modelled from the spec: the kinds the default dispatch of the engine has a case for
  by invariant (a) of section 3; the \<^verbatim>\<open>switch\<close> of \<^verbatim>\<open>nodeFuncs.c\<close> is not among the
  sources.
\<close>

fun recognized :: "NodeTag \<Rightarrow> bool" where
  "recognized (T_Other n) = False"
| "recognized t = True"

text \<open>
  Modelled from the spec: the fatal internal error of sections 4.1 and 7, raised when an
  unrecognized kind reaches the default dispatch.
\<close>

datatype internal_error = unrecognized_node_type NodeTag

subsection \<open>Walking an expression tree\<close>

text \<open>
  Line 44: \<^verbatim>\<open>typedef bool (*expression_tree_walker_fptr)(Node *, void *)\<close>. The
  callback reads and writes the caller's context through the pointer, so it returns the
  context with its answer.
\<close>

type_synonym 'c walker = "node \<Rightarrow> 'c \<Rightarrow> bool \<times> 'c"

text \<open>
  Modelled from the spec: \<open>expression_tree_walker\<close> is declared at lines 45 and 46 of the
  header; its body, in \<^verbatim>\<open>nodeFuncs.c\<close>, is not among the sources. Section 4.1: an absent
  node gives false at once; otherwise the callback is invoked on the node first, and when it
  declines (returns false) the default dispatch recurses into every child slot in the order
  of the slots and combines the results with a short-circuiting logical OR: the first
  subwalk that returns true ends the call with true. An unrecognized kind reaching the
  default dispatch is the fatal internal error. A kind with no child has no slot, so that
  the result is the callback's.
\<close>

function expression_tree_walker :: "node option \<Rightarrow> 'c walker \<Rightarrow> 'c \<Rightarrow> internal_error + (bool \<times> 'c)"
  and walk_slots :: "slot list \<Rightarrow> 'c walker \<Rightarrow> 'c \<Rightarrow> internal_error + (bool \<times> 'c)"
  and walk_slot :: "slot \<Rightarrow> 'c walker \<Rightarrow> 'c \<Rightarrow> internal_error + (bool \<times> 'c)"
  and walk_nodes :: "node list \<Rightarrow> 'c walker \<Rightarrow> 'c \<Rightarrow> internal_error + (bool \<times> 'c)"
  and walk_pairs :: "(node \<times> node) list \<Rightarrow> 'c walker \<Rightarrow> 'c \<Rightarrow> internal_error + (bool \<times> 'c)"
where
  "expression_tree_walker None w c = Inr (False, c)"
| "expression_tree_walker (Some (Node tag fs ss)) w c =
    (case w (Node tag fs ss) c of
       (True, c') \<Rightarrow> Inr (True, c')
     | (False, c') \<Rightarrow>
         if recognized tag then walk_slots ss w c' else Inl (unrecognized_node_type tag))"
| "walk_slots [] w c = Inr (False, c)"
| "walk_slots (s # ss) w c =
    (case walk_slot s w c of
       Inl e \<Rightarrow> Inl e
     | Inr (True, c') \<Rightarrow> Inr (True, c')
     | Inr (False, c') \<Rightarrow> walk_slots ss w c')"
| "walk_slot (Single n) w c = expression_tree_walker n w c"
| "walk_slot (Sequence ns) w c = walk_nodes ns w c"
| "walk_slot (Pairs ps) w c = walk_pairs ps w c"
| "walk_nodes [] w c = Inr (False, c)"
| "walk_nodes (n # ns) w c =
    (case expression_tree_walker (Some n) w c of
       Inl e \<Rightarrow> Inl e
     | Inr (True, c') \<Rightarrow> Inr (True, c')
     | Inr (False, c') \<Rightarrow> walk_nodes ns w c')"
| "walk_pairs [] w c = Inr (False, c)"
| "walk_pairs ((a, b) # ps) w c =
    (case expression_tree_walker (Some a) w c of
       Inl e \<Rightarrow> Inl e
     | Inr (True, c') \<Rightarrow> Inr (True, c')
     | Inr (False, c') \<Rightarrow>
    (case expression_tree_walker (Some b) w c' of
       Inl e \<Rightarrow> Inl e
     | Inr (True, c'') \<Rightarrow> Inr (True, c'')
     | Inr (False, c'') \<Rightarrow> walk_pairs ps w c''))"
  by pat_completeness auto
termination
  by (relation "measure (\<lambda>x. case x of
        Inl (Inl (n, w, c)) \<Rightarrow> (case n of None \<Rightarrow> 0 | Some n' \<Rightarrow> size n')
      | Inl (Inr (ss, w, c)) \<Rightarrow> size_list size ss
      | Inr (Inl (s, w, c)) \<Rightarrow> size s
      | Inr (Inr (Inl (ns, w, c))) \<Rightarrow> size_list size ns
      | Inr (Inr (Inr (ps, w, c))) \<Rightarrow> size_list (size_prod size size) ps)")
    (auto split: option.splits)

text \<open>
  Modelled from the spec: the traversal order of section 8, a node before its child slots,
  the slots and the members of a slot from first to last.
\<close>

function preorder :: "node \<Rightarrow> node list"
  and preorder_slots :: "slot list \<Rightarrow> node list"
  and preorder_slot :: "slot \<Rightarrow> node list"
  and preorder_nodes :: "node list \<Rightarrow> node list"
  and preorder_pairs :: "(node \<times> node) list \<Rightarrow> node list"
where
  "preorder (Node tag fs ss) = Node tag fs ss # preorder_slots ss"
| "preorder_slots [] = []"
| "preorder_slots (s # ss) = preorder_slot s @ preorder_slots ss"
| "preorder_slot (Single None) = []"
| "preorder_slot (Single (Some n)) = preorder n"
| "preorder_slot (Sequence ns) = preorder_nodes ns"
| "preorder_slot (Pairs ps) = preorder_pairs ps"
| "preorder_nodes [] = []"
| "preorder_nodes (n # ns) = preorder n @ preorder_nodes ns"
| "preorder_pairs [] = []"
| "preorder_pairs ((a, b) # ps) = preorder a @ preorder b @ preorder_pairs ps"
  by pat_completeness auto
termination
  by (relation "measure (\<lambda>x. case x of
        Inl (Inl n) \<Rightarrow> size n
      | Inl (Inr ss) \<Rightarrow> size_list size ss
      | Inr (Inl s) \<Rightarrow> size s
      | Inr (Inr (Inl ns)) \<Rightarrow> size_list size ns
      | Inr (Inr (Inr ps)) \<Rightarrow> size_list (size_prod size size) ps)")
    auto

definition traversal_order :: "node option \<Rightarrow> node list" where
  "traversal_order t = (case t of None \<Rightarrow> [] | Some n \<Rightarrow> preorder n)"

text \<open>
  Modelled from the spec: the instrumented callback of section 8 (short-circuit
  correctness), which answers with a predicate and records in the context every node it is
  given.
\<close>

definition visiting :: "(node \<Rightarrow> bool) \<Rightarrow> node list walker" where
  "visiting p n visited = (p n, visited @ [n])"

text \<open>
  The walk of a list of nodes in that order, by a callback that never recurses by itself:
  it stops at the first node of the predicate, and fails at a node of an unrecognized kind
  that the predicate does not hold of.
\<close>

fun scan :: "(node \<Rightarrow> bool) \<Rightarrow> node list \<Rightarrow> node list \<Rightarrow> internal_error + (bool \<times> node list)" where
  "scan p [] visited = Inr (False, visited)"
| "scan p (n # ns) visited =
    (if p n then Inr (True, visited @ [n])
     else if recognized (nodeTag n) then scan p ns (visited @ [n])
     else Inl (unrecognized_node_type (nodeTag n)))"

subsection \<open>Rewriting an expression tree\<close>

text \<open>
  Line 48: \<^verbatim>\<open>typedef Node *(*expression_tree_mutator_fptr)(Node *, void *)\<close>.
\<close>

type_synonym 'c mutator = "node \<Rightarrow> 'c \<Rightarrow> node \<times> 'c"

text \<open>
  Modelled from the spec: \<open>expression_tree_mutator\<close> is declared at lines 49 and 50 of the
  header; its body, in \<^verbatim>\<open>nodeFuncs.c\<close>, is not among the sources. Section 4.1: the same
  dispatch discipline as the walk. The callback is invoked on the node first; a callback that
  intercepts returns the node to put in its place, and one that declines returns the node
  it was given. The default for a declined node is a new node of the same kind, with the
  scalar fields copied verbatim and each child slot rewritten, the members of a list slot
  in order and in the same number. An unrecognized kind reaching the default dispatch is the
  fatal internal error. Nodes are values here: a new node equal to an old one is that node.
\<close>

function mutate_node :: "node \<Rightarrow> 'c mutator \<Rightarrow> 'c \<Rightarrow> internal_error + (node \<times> 'c)"
  and mutate_slots :: "slot list \<Rightarrow> 'c mutator \<Rightarrow> 'c \<Rightarrow> internal_error + (slot list \<times> 'c)"
  and mutate_slot :: "slot \<Rightarrow> 'c mutator \<Rightarrow> 'c \<Rightarrow> internal_error + (slot \<times> 'c)"
  and mutate_nodes :: "node list \<Rightarrow> 'c mutator \<Rightarrow> 'c \<Rightarrow> internal_error + (node list \<times> 'c)"
  and mutate_pairs ::
    "(node \<times> node) list \<Rightarrow> 'c mutator \<Rightarrow> 'c \<Rightarrow> internal_error + ((node \<times> node) list \<times> 'c)"
where
  "mutate_node (Node tag fs ss) m c =
    (case m (Node tag fs ss) c of
       (n', c1) \<Rightarrow>
         if n' \<noteq> Node tag fs ss then Inr (n', c1)
         else if recognized tag then
           (case mutate_slots ss m c1 of
              Inl e \<Rightarrow> Inl e
            | Inr (ss', c2) \<Rightarrow> Inr (Node tag fs ss', c2))
         else Inl (unrecognized_node_type tag))"
| "mutate_slots [] m c = Inr ([], c)"
| "mutate_slots (s # ss) m c =
    (case mutate_slot s m c of
       Inl e \<Rightarrow> Inl e
     | Inr (s', c1) \<Rightarrow>
    (case mutate_slots ss m c1 of
       Inl e \<Rightarrow> Inl e
     | Inr (ss', c2) \<Rightarrow> Inr (s' # ss', c2)))"
| "mutate_slot (Single None) m c = Inr (Single None, c)"
| "mutate_slot (Single (Some n)) m c =
    (case mutate_node n m c of
       Inl e \<Rightarrow> Inl e
     | Inr (n', c1) \<Rightarrow> Inr (Single (Some n'), c1))"
| "mutate_slot (Sequence ns) m c =
    (case mutate_nodes ns m c of
       Inl e \<Rightarrow> Inl e
     | Inr (ns', c1) \<Rightarrow> Inr (Sequence ns', c1))"
| "mutate_slot (Pairs ps) m c =
    (case mutate_pairs ps m c of
       Inl e \<Rightarrow> Inl e
     | Inr (ps', c1) \<Rightarrow> Inr (Pairs ps', c1))"
| "mutate_nodes [] m c = Inr ([], c)"
| "mutate_nodes (n # ns) m c =
    (case mutate_node n m c of
       Inl e \<Rightarrow> Inl e
     | Inr (n', c1) \<Rightarrow>
    (case mutate_nodes ns m c1 of
       Inl e \<Rightarrow> Inl e
     | Inr (ns', c2) \<Rightarrow> Inr (n' # ns', c2)))"
| "mutate_pairs [] m c = Inr ([], c)"
| "mutate_pairs ((a, b) # ps) m c =
    (case mutate_node a m c of
       Inl e \<Rightarrow> Inl e
     | Inr (a', c1) \<Rightarrow>
    (case mutate_node b m c1 of
       Inl e \<Rightarrow> Inl e
     | Inr (b', c2) \<Rightarrow>
    (case mutate_pairs ps m c2 of
       Inl e \<Rightarrow> Inl e
     | Inr (ps', c3) \<Rightarrow> Inr ((a', b') # ps', c3))))"
  by pat_completeness auto
termination
  by (relation "measure (\<lambda>x. case x of
        Inl (Inl (n, m, c)) \<Rightarrow> size n
      | Inl (Inr (ss, m, c)) \<Rightarrow> size_list size ss
      | Inr (Inl (s, m, c)) \<Rightarrow> size s
      | Inr (Inr (Inl (ns, m, c))) \<Rightarrow> size_list size ns
      | Inr (Inr (Inr (ps, m, c))) \<Rightarrow> size_list (size_prod size size) ps)")
    auto

definition expression_tree_mutator ::
  "node option \<Rightarrow> 'c mutator \<Rightarrow> 'c \<Rightarrow> internal_error + (node option \<times> 'c)" where
  "expression_tree_mutator node m c =
    (case node of
       None \<Rightarrow> Inr (None, c)
     | Some n \<Rightarrow>
         (case mutate_node n m c of
            Inl e \<Rightarrow> Inl e
          | Inr (n', c1) \<Rightarrow> Inr (Some n', c1)))"

text \<open>
  Modelled from the spec: a well-formed tree (section 8, identity law) has only nodes of
  kinds the engine has a case for; the identity callback returns its node.
\<close>

definition recognized_all :: "node list \<Rightarrow> bool" where
  "recognized_all ns = list_all (\<lambda>n. recognized (nodeTag n)) ns"

definition well_formed :: "node option \<Rightarrow> bool" where
  "well_formed t = recognized_all (traversal_order t)"

definition identity_mutator :: "'c mutator" where
  "identity_mutator n c = (n, c)"

subsection \<open>Queries\<close>

text \<open>
  Modelled from the spec: the whole-query node of section 3, \<^verbatim>\<open>Query\<close> of
  \<^verbatim>\<open>nodes/parsenodes.h\<close>, which is not among the sources: the target list, the qualification,
  the having clause, the grouping, ordering and window clauses, the limit and offset
  expressions, then the list of common table expressions and the range table.
\<close>

record query_expressions =
  targetList :: "node list"
  qual :: "node option"
  havingQual :: "node option"
  groupClause :: "node list"
  sortClause :: "node list"
  windowClause :: "node list"
  limitOffset :: "node option"
  limitCount :: "node option"

text \<open>
  Modelled from the spec: the variants of a range table entry (section 3): base relation,
  nested subquery, join with the range table indices of its sides and its alias variable
  list, function call, VALUES rows, reference to a common table expression.
\<close>

datatype rte =
    RTE_RELATION nat
  | RTE_SUBQUERY query
  | RTE_JOIN nat nat "node list"
  | RTE_FUNCTION "node list"
  | RTE_VALUES "node list list"
  | RTE_CTE string
and query = Query query_expressions "(string \<times> query) list" "rte list"

text \<open>
  Modelled from the spec: the entry itself, as the callback receives it under
  \<open>QTW_EXAMINE_RTES\<close> as section 4.2 has it: the entry wrapper itself.
\<close>

fun rtekind :: "rte \<Rightarrow> int" where
  "rtekind (RTE_RELATION relid) = 0"
| "rtekind (RTE_SUBQUERY q) = 1"
| "rtekind (RTE_JOIN l r aliasvars) = 2"
| "rtekind (RTE_FUNCTION fs) = 3"
| "rtekind (RTE_VALUES rows) = 4"
| "rtekind (RTE_CTE n) = 5"

definition rte_node :: "rte \<Rightarrow> node" where
  "rte_node r = Node T_RangeTblEntry [rtekind r] []"

subsection \<open>Walking a query\<close>

text \<open>
  The short-circuiting OR of two walks, the second taking the context the first left.
\<close>

definition or_else ::
  "internal_error + (bool \<times> 'c) \<Rightarrow> ('c \<Rightarrow> internal_error + (bool \<times> 'c))
    \<Rightarrow> internal_error + (bool \<times> 'c)" where
  "or_else r k =
    (case r of
       Inl e \<Rightarrow> Inl e
     | Inr (True, c) \<Rightarrow> Inr (True, c)
     | Inr (False, c) \<Rightarrow> k c)"

text \<open>
  Modelled from the spec: the first part of the default recursion of section 4.2, "target
  list expressions, qualification, having clause, grouping/ordering/window specifications'
  expressions, limit/offset expressions".
\<close>

definition query_expressions_walker ::
  "query_expressions \<Rightarrow> 'c walker \<Rightarrow> 'c \<Rightarrow> internal_error + (bool \<times> 'c)" where
  "query_expressions_walker q w c =
    or_else (walk_nodes (targetList q) w c) (\<lambda>c.
    or_else (expression_tree_walker (qual q) w c) (\<lambda>c.
    or_else (expression_tree_walker (havingQual q) w c) (\<lambda>c.
    or_else (walk_nodes (groupClause q) w c) (\<lambda>c.
    or_else (walk_nodes (sortClause q) w c) (\<lambda>c.
    or_else (walk_nodes (windowClause q) w c) (\<lambda>c.
    or_else (expression_tree_walker (limitOffset q) w c) (\<lambda>c.
    expression_tree_walker (limitCount q) w c)))))))"

definition examine_rte :: "rte \<Rightarrow> 'c walker \<Rightarrow> 'c \<Rightarrow> 32 word \<Rightarrow> bool \<times> 'c" where
  "examine_rte r w c flags =
    (if flags AND QTW_EXAMINE_RTES \<noteq> 0 then w (rte_node r) c else (False, c))"

text \<open>
  Modelled from the spec: \<open>query_tree_walker\<close> and \<open>range_table_walker\<close> are declared at
  lines 53, 54, 61 and 62 of the header; their bodies are not among the sources. Section
  4.2: after the expressions of the query come the list of common table expressions, unless
  \<open>QTW_IGNORE_CTE_SUBQUERIES\<close> is set, and the range table, unless
  \<open>QTW_IGNORE_RANGE_TABLE\<close> is set. An entry is given to the callback under
  \<open>QTW_EXAMINE_RTES\<close>; the query of a subquery entry is entered unless
  \<open>QTW_IGNORE_RT_SUBQUERIES\<close> is set, the alias list of a join entry unless
  \<open>QTW_IGNORE_JOINALIASES\<close> is set. A flag is tested with \<^verbatim>\<open>flags & FLAG\<close>.
\<close>

function query_tree_walker ::
    "query \<Rightarrow> 'c walker \<Rightarrow> 'c \<Rightarrow> 32 word \<Rightarrow> internal_error + (bool \<times> 'c)"
  and cte_list_walker ::
    "(string \<times> query) list \<Rightarrow> 'c walker \<Rightarrow> 'c \<Rightarrow> 32 word \<Rightarrow> internal_error + (bool \<times> 'c)"
  and range_table_walker ::
    "rte list \<Rightarrow> 'c walker \<Rightarrow> 'c \<Rightarrow> 32 word \<Rightarrow> internal_error + (bool \<times> 'c)"
  and range_table_entry_walker ::
    "rte \<Rightarrow> 'c walker \<Rightarrow> 'c \<Rightarrow> 32 word \<Rightarrow> internal_error + (bool \<times> 'c)"
where
  "query_tree_walker (Query es ctes rt) w c flags =
    (case query_expressions_walker es w c of
       Inl e \<Rightarrow> Inl e
     | Inr (True, c1) \<Rightarrow> Inr (True, c1)
     | Inr (False, c1) \<Rightarrow>
    (case (if flags AND QTW_IGNORE_CTE_SUBQUERIES = 0 then cte_list_walker ctes w c1 flags
           else Inr (False, c1)) of
       Inl e \<Rightarrow> Inl e
     | Inr (True, c2) \<Rightarrow> Inr (True, c2)
     | Inr (False, c2) \<Rightarrow>
         if flags AND QTW_IGNORE_RANGE_TABLE = 0 then range_table_walker rt w c2 flags
         else Inr (False, c2)))"
| "cte_list_walker [] w c flags = Inr (False, c)"
| "cte_list_walker ((ctename, ctequery) # ctes) w c flags =
    (case query_tree_walker ctequery w c flags of
       Inl e \<Rightarrow> Inl e
     | Inr (True, c1) \<Rightarrow> Inr (True, c1)
     | Inr (False, c1) \<Rightarrow> cte_list_walker ctes w c1 flags)"
| "range_table_walker [] w c flags = Inr (False, c)"
| "range_table_walker (r # rt) w c flags =
    (case range_table_entry_walker r w c flags of
       Inl e \<Rightarrow> Inl e
     | Inr (True, c1) \<Rightarrow> Inr (True, c1)
     | Inr (False, c1) \<Rightarrow> range_table_walker rt w c1 flags)"
| "range_table_entry_walker (RTE_RELATION relid) w c flags =
    Inr (examine_rte (RTE_RELATION relid) w c flags)"
| "range_table_entry_walker (RTE_SUBQUERY q) w c flags =
    (case examine_rte (RTE_SUBQUERY q) w c flags of
       (True, c1) \<Rightarrow> Inr (True, c1)
     | (False, c1) \<Rightarrow>
         if flags AND QTW_IGNORE_RT_SUBQUERIES = 0 then query_tree_walker q w c1 flags
         else Inr (False, c1))"
| "range_table_entry_walker (RTE_JOIN l r aliasvars) w c flags =
    (case examine_rte (RTE_JOIN l r aliasvars) w c flags of
       (True, c1) \<Rightarrow> Inr (True, c1)
     | (False, c1) \<Rightarrow>
         if flags AND QTW_IGNORE_JOINALIASES = 0 then walk_nodes aliasvars w c1
         else Inr (False, c1))"
| "range_table_entry_walker (RTE_FUNCTION fs) w c flags =
    (case examine_rte (RTE_FUNCTION fs) w c flags of
       (True, c1) \<Rightarrow> Inr (True, c1)
     | (False, c1) \<Rightarrow> walk_nodes fs w c1)"
| "range_table_entry_walker (RTE_VALUES rows) w c flags =
    (case examine_rte (RTE_VALUES rows) w c flags of
       (True, c1) \<Rightarrow> Inr (True, c1)
     | (False, c1) \<Rightarrow> walk_nodes (concat rows) w c1)"
| "range_table_entry_walker (RTE_CTE n) w c flags =
    Inr (examine_rte (RTE_CTE n) w c flags)"
  by pat_completeness auto
termination
  by (relation "measure (\<lambda>x. case x of
        Inl (Inl (q, w, c, flags)) \<Rightarrow> size q
      | Inl (Inr (ctes, w, c, flags)) \<Rightarrow> size_list (size_prod (\<lambda>n. 0) size) ctes
      | Inr (Inl (rt, w, c, flags)) \<Rightarrow> size_list size rt
      | Inr (Inr (r, w, c, flags)) \<Rightarrow> size r)")
    auto

subsection \<open>Rewriting a query\<close>

definition and_then ::
  "internal_error + ('a \<times> 'c) \<Rightarrow> ('a \<Rightarrow> 'c \<Rightarrow> internal_error + 'b) \<Rightarrow> internal_error + 'b" where
  "and_then r k = (case r of Inl e \<Rightarrow> Inl e | Inr (x, c) \<Rightarrow> k x c)"

definition query_expressions_mutator ::
  "query_expressions \<Rightarrow> 'c mutator \<Rightarrow> 'c \<Rightarrow> internal_error + (query_expressions \<times> 'c)" where
  "query_expressions_mutator q m c =
    and_then (mutate_nodes (targetList q) m c) (\<lambda>tl c.
    and_then (expression_tree_mutator (qual q) m c) (\<lambda>ql c.
    and_then (expression_tree_mutator (havingQual q) m c) (\<lambda>hv c.
    and_then (mutate_nodes (groupClause q) m c) (\<lambda>gr c.
    and_then (mutate_nodes (sortClause q) m c) (\<lambda>so c.
    and_then (mutate_nodes (windowClause q) m c) (\<lambda>wi c.
    and_then (expression_tree_mutator (limitOffset q) m c) (\<lambda>lo c.
    and_then (expression_tree_mutator (limitCount q) m c) (\<lambda>lc c.
    Inr (\<lparr>targetList = tl, qual = ql, havingQual = hv, groupClause = gr, sortClause = so,
          windowClause = wi, limitOffset = lo, limitCount = lc\<rparr>, c)))))))))"

fun mutate_rows ::
  "node list list \<Rightarrow> 'c mutator \<Rightarrow> 'c \<Rightarrow> internal_error + (node list list \<times> 'c)" where
  "mutate_rows [] m c = Inr ([], c)"
| "mutate_rows (row # rows) m c =
    (case mutate_nodes row m c of
       Inl e \<Rightarrow> Inl e
     | Inr (row', c1) \<Rightarrow>
    (case mutate_rows rows m c1 of
       Inl e \<Rightarrow> Inl e
     | Inr (rows', c2) \<Rightarrow> Inr (row' # rows', c2)))"

text \<open>
  Under \<open>QTW_EXAMINE_RTES\<close> the callback is given the entry; what it does to its context is
  kept.
\<close>

definition examine_rte_mutator :: "rte \<Rightarrow> 'c mutator \<Rightarrow> 'c \<Rightarrow> 32 word \<Rightarrow> 'c" where
  "examine_rte_mutator r m c flags =
    (if flags AND QTW_EXAMINE_RTES \<noteq> 0 then snd (m (rte_node r) c) else c)"

text \<open>
  Modelled from the spec: \<open>query_tree_mutator\<close> and \<open>range_table_mutator\<close> are declared
  at lines 57, 58, 65 and 66 of the header; their bodies are not among the sources. Section
  4.2: the same parts in the same order and under the same flags as the walk, each
  rewritten by \<open>expression_tree_mutator\<close>. \<open>QTW_DONT_COPY_QUERY\<close> chooses between
  rewriting the top query in place and rewriting a copy of it; the query returned is the
  same.
\<close>

function query_tree_mutator ::
    "query \<Rightarrow> 'c mutator \<Rightarrow> 'c \<Rightarrow> 32 word \<Rightarrow> internal_error + (query \<times> 'c)"
  and cte_list_mutator ::
    "(string \<times> query) list \<Rightarrow> 'c mutator \<Rightarrow> 'c \<Rightarrow> 32 word
      \<Rightarrow> internal_error + ((string \<times> query) list \<times> 'c)"
  and range_table_mutator ::
    "rte list \<Rightarrow> 'c mutator \<Rightarrow> 'c \<Rightarrow> 32 word \<Rightarrow> internal_error + (rte list \<times> 'c)"
  and range_table_entry_mutator ::
    "rte \<Rightarrow> 'c mutator \<Rightarrow> 'c \<Rightarrow> 32 word \<Rightarrow> internal_error + (rte \<times> 'c)"
where
  "query_tree_mutator (Query es ctes rt) m c flags =
    (case query_expressions_mutator es m c of
       Inl e \<Rightarrow> Inl e
     | Inr (es', c1) \<Rightarrow>
    (case (if flags AND QTW_IGNORE_CTE_SUBQUERIES = 0 then cte_list_mutator ctes m c1 flags
           else Inr (ctes, c1)) of
       Inl e \<Rightarrow> Inl e
     | Inr (ctes', c2) \<Rightarrow>
    (case (if flags AND QTW_IGNORE_RANGE_TABLE = 0 then range_table_mutator rt m c2 flags
           else Inr (rt, c2)) of
       Inl e \<Rightarrow> Inl e
     | Inr (rt', c3) \<Rightarrow> Inr (Query es' ctes' rt', c3))))"
| "cte_list_mutator [] m c flags = Inr ([], c)"
| "cte_list_mutator ((ctename, ctequery) # ctes) m c flags =
    (case query_tree_mutator ctequery m c flags of
       Inl e \<Rightarrow> Inl e
     | Inr (ctequery', c1) \<Rightarrow>
    (case cte_list_mutator ctes m c1 flags of
       Inl e \<Rightarrow> Inl e
     | Inr (ctes', c2) \<Rightarrow> Inr ((ctename, ctequery') # ctes', c2)))"
| "range_table_mutator [] m c flags = Inr ([], c)"
| "range_table_mutator (r # rt) m c flags =
    (case range_table_entry_mutator r m c flags of
       Inl e \<Rightarrow> Inl e
     | Inr (r', c1) \<Rightarrow>
    (case range_table_mutator rt m c1 flags of
       Inl e \<Rightarrow> Inl e
     | Inr (rt', c2) \<Rightarrow> Inr (r' # rt', c2)))"
| "range_table_entry_mutator (RTE_RELATION relid) m c flags =
    Inr (RTE_RELATION relid, examine_rte_mutator (RTE_RELATION relid) m c flags)"
| "range_table_entry_mutator (RTE_SUBQUERY q) m c flags =
    (if flags AND QTW_IGNORE_RT_SUBQUERIES = 0 then
       (case query_tree_mutator q m (examine_rte_mutator (RTE_SUBQUERY q) m c flags) flags of
          Inl e \<Rightarrow> Inl e
        | Inr (q', c1) \<Rightarrow> Inr (RTE_SUBQUERY q', c1))
     else Inr (RTE_SUBQUERY q, examine_rte_mutator (RTE_SUBQUERY q) m c flags))"
| "range_table_entry_mutator (RTE_JOIN l r aliasvars) m c flags =
    (if flags AND QTW_IGNORE_JOINALIASES = 0 then
       (case mutate_nodes aliasvars m
               (examine_rte_mutator (RTE_JOIN l r aliasvars) m c flags) of
          Inl e \<Rightarrow> Inl e
        | Inr (aliasvars', c1) \<Rightarrow> Inr (RTE_JOIN l r aliasvars', c1))
     else Inr (RTE_JOIN l r aliasvars,
               examine_rte_mutator (RTE_JOIN l r aliasvars) m c flags))"
| "range_table_entry_mutator (RTE_FUNCTION fs) m c flags =
    (case mutate_nodes fs m (examine_rte_mutator (RTE_FUNCTION fs) m c flags) of
       Inl e \<Rightarrow> Inl e
     | Inr (fs', c1) \<Rightarrow> Inr (RTE_FUNCTION fs', c1))"
| "range_table_entry_mutator (RTE_VALUES rows) m c flags =
    (case mutate_rows rows m (examine_rte_mutator (RTE_VALUES rows) m c flags) of
       Inl e \<Rightarrow> Inl e
     | Inr (rows', c1) \<Rightarrow> Inr (RTE_VALUES rows', c1))"
| "range_table_entry_mutator (RTE_CTE n) m c flags =
    Inr (RTE_CTE n, examine_rte_mutator (RTE_CTE n) m c flags)"
  by pat_completeness auto
termination
  by (relation "measure (\<lambda>x. case x of
        Inl (Inl (q, m, c, flags)) \<Rightarrow> size q
      | Inl (Inr (ctes, m, c, flags)) \<Rightarrow> size_list (size_prod (\<lambda>n. 0) size) ctes
      | Inr (Inl (rt, m, c, flags)) \<Rightarrow> size_list size rt
      | Inr (Inr (r, m, c, flags)) \<Rightarrow> size r)")
    auto

text \<open>
  Modelled from the spec: the nodes of a query in the order of the default recursion with
  no flag set, and the well-formed queries.
\<close>

definition expressions_preorder :: "query_expressions \<Rightarrow> node list" where
  "expressions_preorder q =
    preorder_nodes (targetList q) @ traversal_order (qual q) @ traversal_order (havingQual q)
      @ preorder_nodes (groupClause q) @ preorder_nodes (sortClause q)
      @ preorder_nodes (windowClause q) @ traversal_order (limitOffset q)
      @ traversal_order (limitCount q)"

function query_preorder :: "query \<Rightarrow> node list"
  and cte_list_preorder :: "(string \<times> query) list \<Rightarrow> node list"
  and range_table_preorder :: "rte list \<Rightarrow> node list"
  and rte_preorder :: "rte \<Rightarrow> node list"
where
  "query_preorder (Query es ctes rt) =
    expressions_preorder es @ cte_list_preorder ctes @ range_table_preorder rt"
| "cte_list_preorder [] = []"
| "cte_list_preorder ((ctename, ctequery) # ctes) =
    query_preorder ctequery @ cte_list_preorder ctes"
| "range_table_preorder [] = []"
| "range_table_preorder (r # rt) = rte_preorder r @ range_table_preorder rt"
| "rte_preorder (RTE_RELATION relid) = []"
| "rte_preorder (RTE_SUBQUERY q) = query_preorder q"
| "rte_preorder (RTE_JOIN l r aliasvars) = preorder_nodes aliasvars"
| "rte_preorder (RTE_FUNCTION fs) = preorder_nodes fs"
| "rte_preorder (RTE_VALUES rows) = preorder_nodes (concat rows)"
| "rte_preorder (RTE_CTE n) = []"
  by pat_completeness auto
termination
  by (relation "measure (\<lambda>x. case x of
        Inl (Inl q) \<Rightarrow> size q
      | Inl (Inr ctes) \<Rightarrow> size_list (size_prod (\<lambda>n. 0) size) ctes
      | Inr (Inl rt) \<Rightarrow> size_list size rt
      | Inr (Inr r) \<Rightarrow> size r)")
    auto

definition well_formed_query :: "query \<Rightarrow> bool" where
  "well_formed_query q = recognized_all (query_preorder q)"

subsection \<open>Sample trees\<close>

text \<open>
  The expression \<^verbatim>\<open>CASE WHEN a > 0 THEN 10 WHEN a < 0 THEN 20 ELSE 30 END\<close>, and the
  query \<^verbatim>\<open>SELECT a+1 FROM (SELECT x AS a FROM t) sub\<close> of section 8.
\<close>

definition sample_var :: "int \<Rightarrow> int \<Rightarrow> node" where
  "sample_var varno varattno = Node T_Var [varno, varattno] []"

definition sample_const :: "int \<Rightarrow> node" where
  "sample_const v = Node T_Const [v] []"

definition sample_op :: "int \<Rightarrow> node list \<Rightarrow> node" where
  "sample_op opno args = Node T_OpExpr [opno] [Sequence args]"

definition sample_case :: "(node \<times> node) list \<Rightarrow> node option \<Rightarrow> node" where
  "sample_case whens defresult = Node T_CaseExpr [] [Single None, Pairs whens, Single defresult]"

definition sample_target :: "int \<Rightarrow> node \<Rightarrow> node" where
  "sample_target resno e = Node T_TargetEntry [resno] [Single (Some e)]"

definition no_expressions :: query_expressions where
  "no_expressions =
    \<lparr>targetList = [], qual = None, havingQual = None, groupClause = [], sortClause = [],
     windowClause = [], limitOffset = None, limitCount = None\<rparr>"

definition sample_tree :: node where
  "sample_tree =
    sample_case
      [(sample_op 521 [sample_var 1 1, sample_const 0], sample_const 10),
       (sample_op 97 [sample_var 1 1, sample_const 0], sample_const 20)]
      (Some (sample_const 30))"

definition sample_subquery :: query where
  "sample_subquery =
    Query (no_expressions\<lparr>targetList := [sample_target 1 (sample_var 1 7)]\<rparr>) []
      [RTE_RELATION 16384]"

definition sample_query :: query where
  "sample_query =
    Query (no_expressions
             \<lparr>targetList := [sample_target 1 (sample_op 551 [sample_var 1 1, sample_const 1])]\<rparr>)
      [] [RTE_SUBQUERY sample_subquery]"

section \<open>Properties of the operator definition command\<close>

subsection \<open>The sample catalog, field by field\<close>

lemma sample_services_sel [simp]:
  "InvalidOid (sample_services uid denied) = 0"
  "INTERNALOID (sample_services uid denied) = 2281"
  "OIDOID (sample_services uid denied) = 26"
  "INT4OID (sample_services uid denied) = 23"
  "INT2OID (sample_services uid denied) = 21"
  "FLOAT8OID (sample_services uid denied) = 701"
  "GetUserId (sample_services uid denied) = uid"
  "QualifiedNameGetCreationNamespace (sample_services uid denied) cat [n] = Inr (2200, n)"
  "pg_namespace_aclcheck (sample_services uid denied) cat oid roleid mode =
     sample_acl denied (Some ACL_KIND_NAMESPACE) oid"
  "get_namespace_name (sample_services uid denied) cat 2200 = ''public''"
  "pg_strcasecmp (sample_services uid denied) = sample_strcasecmp"
  "defGetTypeName (sample_services uid denied) (sample_defel k (sample_type n s)) =
     Inr \<lparr>tn_names = [n], setof = s\<rparr>"
  "defGetQualifiedName (sample_services uid denied) (sample_defel k (Some (ArgString n))) =
     Inr [n]"
  "defGetBoolean (sample_services uid denied) (sample_defel k None) = Inr True"
  "typenameTypeId (sample_services uid denied) cat \<lparr>tn_names = [''int4''], setof = s\<rparr> =
     Inr 23"
  "typenameTypeId (sample_services uid denied) cat \<lparr>tn_names = [''bool''], setof = s\<rparr> =
     Inr 16"
  "pg_type_aclcheck (sample_services uid denied) cat oid roleid mode =
     sample_acl denied None oid"
  "LookupFuncName (sample_services uid denied) cat funcname nargs argtypes noError =
     (case sample_lookup sample_functions funcname argtypes of
        Some oid \<Rightarrow> Inr oid
      | None \<Rightarrow> if noError then Inr 0
                else Inl (collaborator_error ''function does not exist''))"
  "pg_proc_aclcheck (sample_services uid denied) cat oid roleid mode =
     sample_acl denied (Some ACL_KIND_PROC) oid"
  "get_func_rettype (sample_services uid denied) cat oid = sample_rettype sample_functions oid"
  "NameListToString (sample_services uid denied) = sample_NameListToString"
  "OperatorCreate (sample_services uid denied) oprName oprNamespace leftTypeId rightTypeId
     procedureId com neg restrictionId joinId m h cat =
     (Inr \<lparr>classId = 2617, objectId = 16384 + length cat, objectSubId = 0\<rparr>,
      cat @ [(oprName, oprNamespace, leftTypeId, rightTypeId, procedureId)])"
  by (simp_all add: sample_services_def sample_defel_def sample_type_def)

lemma defname_sample_defel [simp]: "defname (sample_defel k a) = k"
  by (simp add: sample_defel_def)

subsection \<open>The parameter loop\<close>

lemma defel_unrecognized:
  assumes "\<forall>k\<in>set operator_attributes. pg_strcasecmp E (defname d) k \<noteq> 0"
  shows "DefineOperator_defel E d L = Inr (L, [attribute_not_recognized (defname d)])"
  using assms by (simp add: DefineOperator_defel_def operator_attributes_def)

lemma defel_functionName:
  assumes "pg_strcasecmp E (defname d) ''procedure'' \<noteq> 0"
    and "DefineOperator_defel E d L = Inr (L', w)"
  shows "functionName L' = functionName L"
  using assms by (auto simp add: DefineOperator_defel_def split: if_splits sum.splits)

lemma defel_typeNames:
  assumes "pg_strcasecmp E (defname d) ''leftarg'' \<noteq> 0"
    and "pg_strcasecmp E (defname d) ''rightarg'' \<noteq> 0"
    and "DefineOperator_defel E d L = Inr (L', w)"
  shows "typeName1 L' = typeName1 L \<and> typeName2 L' = typeName2 L"
  using assms by (auto simp add: DefineOperator_defel_def split: if_splits sum.splits)

lemma foreach_functionName:
  assumes "\<forall>d\<in>set pl. pg_strcasecmp E (defname d) ''procedure'' \<noteq> 0"
    and "DefineOperator_foreach E pl L ws = (Inr L', ws')"
  shows "functionName L' = functionName L"
  using assms
proof (induction pl arbitrary: L ws)
  case Nil
  then show ?case by simp
next
  case (Cons d pl)
  from Cons.prems(2) obtain L1 w where
    step: "DefineOperator_defel E d L = Inr (L1, w)"
    and rest: "DefineOperator_foreach E pl L1 (ws @ w) = (Inr L', ws')"
    by (auto split: sum.splits)
  from Cons.prems(1) have "pg_strcasecmp E (defname d) ''procedure'' \<noteq> 0"
    by simp
  then have "functionName L1 = functionName L"
    using step by (rule defel_functionName)
  moreover from Cons.prems(1) rest have "functionName L' = functionName L1"
    by (intro Cons.IH) auto
  ultimately show ?case by simp
qed

lemma foreach_typeNames:
  assumes "\<forall>d\<in>set pl. pg_strcasecmp E (defname d) ''leftarg'' \<noteq> 0
             \<and> pg_strcasecmp E (defname d) ''rightarg'' \<noteq> 0"
    and "DefineOperator_foreach E pl L ws = (Inr L', ws')"
  shows "typeName1 L' = typeName1 L \<and> typeName2 L' = typeName2 L"
  using assms
proof (induction pl arbitrary: L ws)
  case Nil
  then show ?case by simp
next
  case (Cons d pl)
  from Cons.prems(2) obtain L1 w where
    step: "DefineOperator_defel E d L = Inr (L1, w)"
    and rest: "DefineOperator_foreach E pl L1 (ws @ w) = (Inr L', ws')"
    by (auto split: sum.splits)
  from Cons.prems(1) have "pg_strcasecmp E (defname d) ''leftarg'' \<noteq> 0"
    and "pg_strcasecmp E (defname d) ''rightarg'' \<noteq> 0"
    by simp_all
  then have "typeName1 L1 = typeName1 L \<and> typeName2 L1 = typeName2 L"
    using step by (rule defel_typeNames)
  moreover from Cons.prems(1) rest have "typeName1 L' = typeName1 L1 \<and> typeName2 L' = typeName2 L1"
    by (intro Cons.IH) auto
  ultimately show ?case by simp
qed

lemma foreach_append:
  "DefineOperator_foreach E (xs @ ys) L ws =
    (case DefineOperator_foreach E xs L ws of
       (Inl e, ws') \<Rightarrow> (Inl e, ws')
     | (Inr L', ws') \<Rightarrow> DefineOperator_foreach E ys L' ws')"
  by (induction xs arbitrary: L ws) (auto split: sum.splits)

lemma foreach_notices:
  "DefineOperator_foreach E pl L (ws0 @ ws) =
    (case DefineOperator_foreach E pl L ws of (r, ws') \<Rightarrow> (r, ws0 @ ws'))"
  by (induction pl arbitrary: L ws) (auto split: sum.splits)

lemma namespace_cases:
  obtains (error) e where "DefineOperator_namespace E cat names = Inl e"
  | (ok) oprNamespace oprName where
      "DefineOperator_namespace E cat names = Inr (oprNamespace, oprName)"
  by (cases "DefineOperator_namespace E cat names") auto

lemma foreach_cases:
  obtains (error) e ws where "DefineOperator_foreach E pl L ws0 = (Inl e, ws)"
  | (ok) L' ws where "DefineOperator_foreach E pl L ws0 = (Inr L', ws)"
  by (cases "DefineOperator_foreach E pl L ws0"; cases "fst (DefineOperator_foreach E pl L ws0)") auto

lemma DefineOperator_namespace_error:
  "DefineOperator_namespace E cat names = Inl e
    \<Longrightarrow> DefineOperator E names parameters cat = (Inl e, cat, [])"
  by (simp add: DefineOperator_def)

lemma DefineOperator_foreach_error:
  "DefineOperator_namespace E cat names = Inr (oprNamespace, oprName)
    \<Longrightarrow> DefineOperator_foreach E parameters initial_locals [] = (Inl e, ws)
    \<Longrightarrow> DefineOperator E names parameters cat = (Inl e, cat, ws)"
  by (simp add: DefineOperator_def)

lemma DefineOperator_types_error:
  "DefineOperator_namespace E cat names = Inr (oprNamespace, oprName)
    \<Longrightarrow> DefineOperator_foreach E parameters initial_locals [] = (Inr L, ws)
    \<Longrightarrow> DefineOperator_types E cat L = Inl e
    \<Longrightarrow> DefineOperator E names parameters cat = (Inl e, cat, ws)"
  by (simp add: DefineOperator_def)

lemma DefineOperator_function_error:
  "DefineOperator_namespace E cat names = Inr (oprNamespace, oprName)
    \<Longrightarrow> DefineOperator_foreach E parameters initial_locals [] = (Inr L, ws)
    \<Longrightarrow> DefineOperator_types E cat L = Inr (typeId1, typeId2)
    \<Longrightarrow> DefineOperator_function E cat L typeId1 typeId2 = Inl e
    \<Longrightarrow> DefineOperator E names parameters cat = (Inl e, cat, ws)"
  by (simp add: DefineOperator_def)

lemma DefineOperator_restrict_error:
  "DefineOperator_namespace E cat names = Inr (oprNamespace, oprName)
    \<Longrightarrow> DefineOperator_foreach E parameters initial_locals [] = (Inr L, ws)
    \<Longrightarrow> DefineOperator_types E cat L = Inr (typeId1, typeId2)
    \<Longrightarrow> DefineOperator_function E cat L typeId1 typeId2 = Inr functionOid
    \<Longrightarrow> DefineOperator_restrict E cat L = Inl e
    \<Longrightarrow> DefineOperator E names parameters cat = (Inl e, cat, ws)"
  by (simp add: DefineOperator_def)

lemma DefineOperator_join_error:
  "DefineOperator_namespace E cat names = Inr (oprNamespace, oprName)
    \<Longrightarrow> DefineOperator_foreach E parameters initial_locals [] = (Inr L, ws)
    \<Longrightarrow> DefineOperator_types E cat L = Inr (typeId1, typeId2)
    \<Longrightarrow> DefineOperator_function E cat L typeId1 typeId2 = Inr functionOid
    \<Longrightarrow> DefineOperator_restrict E cat L = Inr restrictionOid
    \<Longrightarrow> DefineOperator_join E cat L = Inl e
    \<Longrightarrow> DefineOperator E names parameters cat = (Inl e, cat, ws)"
  by (simp add: DefineOperator_def)

lemma DefineOperator_reaches_OperatorCreate:
  "DefineOperator_namespace E cat names = Inr (oprNamespace, oprName)
    \<Longrightarrow> DefineOperator_foreach E parameters initial_locals [] = (Inr L, ws)
    \<Longrightarrow> DefineOperator_types E cat L = Inr (typeId1, typeId2)
    \<Longrightarrow> DefineOperator_function E cat L typeId1 typeId2 = Inr functionOid
    \<Longrightarrow> DefineOperator_restrict E cat L = Inr restrictionOid
    \<Longrightarrow> DefineOperator_join E cat L = Inr joinOid
    \<Longrightarrow> DefineOperator E names parameters cat =
         (case OperatorCreate E oprName oprNamespace typeId1 typeId2 functionOid
                 (commutatorName L) (negatorName L) restrictionOid joinOid
                 (canMerge L) (canHash L) cat of
            (r, cat') \<Rightarrow> (r, cat', ws))"
  by (simp add: DefineOperator_def)

subsection \<open>No partial catalog mutation\<close>

text \<open>
  Claim C5. Whatever the outcome of the command, either it is an error and the catalog is
  the one the command started with, or every step before \<open>OperatorCreate\<close> succeeded
  (namespace and its permission, parameter loop, required arguments and operand types,
  underlying function, both estimators) and outcome and catalog are exactly what the one
  call of \<open>OperatorCreate\<close>, made on the unchanged catalog, returned. So every error
  raised by a check of \<open>DefineOperator\<close> aborts the command before anything was written.
\<close>

theorem DefineOperator_mutates_only_in_OperatorCreate:
  assumes run: "DefineOperator E names parameters cat = (r, cat', ws)"
  shows "(cat' = cat \<and> (\<exists>e. r = Inl e))
    \<or> (\<exists>oprNamespace oprName L typeId1 typeId2 functionOid restrictionOid joinOid.
          DefineOperator_namespace E cat names = Inr (oprNamespace, oprName)
        \<and> DefineOperator_foreach E parameters initial_locals [] = (Inr L, ws)
        \<and> DefineOperator_types E cat L = Inr (typeId1, typeId2)
        \<and> DefineOperator_function E cat L typeId1 typeId2 = Inr functionOid
        \<and> DefineOperator_restrict E cat L = Inr restrictionOid
        \<and> DefineOperator_join E cat L = Inr joinOid
        \<and> OperatorCreate E oprName oprNamespace typeId1 typeId2 functionOid
              (commutatorName L) (negatorName L) restrictionOid joinOid
              (canMerge L) (canHash L) cat = (r, cat'))"
proof (cases rule: namespace_cases [of E cat names])
  case (error e)
  with run show ?thesis by (auto simp add: DefineOperator_namespace_error)
next
  case ns: (ok oprNamespace oprName)
  show ?thesis
  proof (cases rule: foreach_cases [of E parameters initial_locals "[]"])
    case (error e ws1)
    with run ns show ?thesis by (auto simp add: DefineOperator_foreach_error)
  next
    case loop: (ok L ws1)
    show ?thesis
    proof (cases "DefineOperator_types E cat L")
      case (Inl e)
      with run ns loop show ?thesis by (auto simp add: DefineOperator_types_error)
    next
      case (Inr t)
      then obtain typeId1 typeId2 where
        types: "DefineOperator_types E cat L = Inr (typeId1, typeId2)"
        by (cases t) simp
      show ?thesis
      proof (cases "DefineOperator_function E cat L typeId1 typeId2")
        case (Inl e)
        with run ns loop types show ?thesis by (auto simp add: DefineOperator_function_error)
      next
        case func: (Inr functionOid)
        show ?thesis
        proof (cases "DefineOperator_restrict E cat L")
          case (Inl e)
          with run ns loop types func show ?thesis
            by (auto simp add: DefineOperator_restrict_error)
        next
          case restr: (Inr restrictionOid)
          show ?thesis
          proof (cases "DefineOperator_join E cat L")
            case (Inl e)
            with run ns loop types func restr show ?thesis
              by (auto simp add: DefineOperator_join_error)
          next
            case join: (Inr joinOid)
            from run have "ws1 = ws"
              and "OperatorCreate E oprName oprNamespace typeId1 typeId2 functionOid
                (commutatorName L) (negatorName L) restrictionOid joinOid
                (canMerge L) (canHash L) cat = (r, cat')"
              by (auto simp add: DefineOperator_reaches_OperatorCreate
                    [OF ns loop types func restr join] split: prod.splits)
            with ns loop types func restr join show ?thesis by blast
          qed
        qed
      qed
    qed
  qed
qed

lemma sample_namespace:
  "(Some ACL_KIND_NAMESPACE, 2200) \<notin> set denied
    \<Longrightarrow> DefineOperator_namespace (sample_services uid denied) cat [n] = Inr (2200, n)"
  by (simp add: DefineOperator_namespace_def sample_acl_def)

lemma sample_foreach_leftarg:
  "DefineOperator_foreach (sample_services uid denied)
     [sample_defel ''leftarg'' (sample_type ''int4'' False)] initial_locals [] =
   (Inr (initial_locals\<lparr>typeName1 := Some \<lparr>tn_names = [''int4''], setof = False\<rparr>\<rparr>), [])"
  by (simp add: DefineOperator_defel_def)

theorem DefineOperator_mutates_only_in_OperatorCreate_witness:
  "DefineOperator (sample_services 10 []) [''+'']
     [sample_defel ''leftarg'' (sample_type ''int4'' False)] [] =
     (Inl procedure_must_be_specified, [], [])
   \<and> (([] :: sample_catalog) = []
      \<and> (\<exists>e. (Inl procedure_must_be_specified :: error + ObjectAddress) = Inl e))"
proof -
  have run: "DefineOperator (sample_services 10 []) [''+'']
     [sample_defel ''leftarg'' (sample_type ''int4'' False)] [] =
     (Inl procedure_must_be_specified, [], [])"
    by (rule DefineOperator_types_error [OF sample_namespace sample_foreach_leftarg])
      (simp_all add: DefineOperator_types_def initial_locals_def)
  from DefineOperator_mutates_only_in_OperatorCreate [OF run] run show ?thesis
    by simp
qed

subsection \<open>Unrecognized attributes\<close>

lemma DefineOperator_notices:
  assumes "DefineOperator_namespace E cat names = Inr x"
  shows "snd (snd (DefineOperator E names parameters cat)) =
    snd (DefineOperator_foreach E parameters initial_locals [])"
  using assms
  by (cases x) (simp add: DefineOperator_def split: sum.splits prod.splits)

lemma DefineOperator_foreach_cong:
  assumes "fst (DefineOperator_foreach E ps1 initial_locals []) =
    fst (DefineOperator_foreach E ps2 initial_locals [])"
  shows "fst (DefineOperator E names ps1 cat) = fst (DefineOperator E names ps2 cat)
    \<and> fst (snd (DefineOperator E names ps1 cat)) = fst (snd (DefineOperator E names ps2 cat))"
proof (cases rule: namespace_cases [of E cat names])
  case (error e)
  then show ?thesis by (simp add: DefineOperator_namespace_error)
next
  case ns: (ok oprNamespace oprName)
  obtain r1 ws1 where f1: "DefineOperator_foreach E ps1 initial_locals [] = (r1, ws1)"
    by (cases "DefineOperator_foreach E ps1 initial_locals []")
  obtain r2 ws2 where f2: "DefineOperator_foreach E ps2 initial_locals [] = (r2, ws2)"
    by (cases "DefineOperator_foreach E ps2 initial_locals []")
  from assms f1 f2 have "r1 = r2" by simp
  with ns f1 f2 show ?thesis
    by (simp add: DefineOperator_def split: sum.splits prod.splits)
qed

lemma foreach_skip_unrecognized:
  assumes "\<forall>k\<in>set operator_attributes. pg_strcasecmp E (defname defel) k \<noteq> 0"
  shows "DefineOperator_foreach E (defel # pl) L ws =
    DefineOperator_foreach E pl L (ws @ [attribute_not_recognized (defname defel)])"
  using assms by (simp add: defel_unrecognized)

lemma foreach_insert_unrecognized:
  assumes unrec: "\<forall>k\<in>set operator_attributes. pg_strcasecmp E (defname defel) k \<noteq> 0"
  shows "fst (DefineOperator_foreach E (pre @ defel # post) L ws) =
    fst (DefineOperator_foreach E (pre @ post) L ws)"
proof (cases rule: foreach_cases [of E pre L ws])
  case (error e ws1)
  then show ?thesis by (simp add: foreach_append)
next
  case (ok L1 ws1)
  have "fst (DefineOperator_foreach E post L1 (ws1 @ [attribute_not_recognized (defname defel)])) =
    fst (DefineOperator_foreach E post L1 ws1)"
    using foreach_notices [of E post L1 "ws1 @ [attribute_not_recognized (defname defel)]" "[]"]
      foreach_notices [of E post L1 ws1 "[]"]
    by (simp split: prod.splits)
  with ok unrec show ?thesis
    by (simp add: foreach_append defel_unrecognized)
qed

lemma foreach_insert_unrecognized_notices:
  assumes unrec: "\<forall>k\<in>set operator_attributes. pg_strcasecmp E (defname defel) k \<noteq> 0"
    and pre: "DefineOperator_foreach E pre L ws = (Inr L1, ws1)"
  shows "\<exists>ws2. snd (DefineOperator_foreach E (pre @ post) L ws) = ws1 @ ws2
    \<and> snd (DefineOperator_foreach E (pre @ defel # post) L ws) =
        ws1 @ attribute_not_recognized (defname defel) # ws2"
proof -
  obtain r ws2 where post: "DefineOperator_foreach E post L1 [] = (r, ws2)"
    by (cases "DefineOperator_foreach E post L1 []")
  have "DefineOperator_foreach E post L1 ws1 = (r, ws1 @ ws2)"
    using foreach_notices [of E post L1 ws1 "[]"] post by simp
  moreover have "DefineOperator_foreach E post L1 (ws1 @ [attribute_not_recognized (defname defel)]) =
    (r, (ws1 @ [attribute_not_recognized (defname defel)]) @ ws2)"
    using foreach_notices [of E post L1 "ws1 @ [attribute_not_recognized (defname defel)]" "[]"] post
    by simp
  ultimately show ?thesis
    using pre unrec by (simp add: foreach_append defel_unrecognized)
qed

text \<open>
  Claim C10. Let the name of \<open>defel\<close> compare unequal to each of the thirteen attribute
  names of the loop. Then its pass through the loop body raises nothing, leaves every
  local variable as it was and reports the one warning that the attribute is not
  recognized. The command goes on with the remaining parameters: with \<open>defel\<close> anywhere
  in the parameter list, outcome and catalog are those of the command without it, and,
  when the loop reaches \<open>defel\<close>, the warnings are those of the command without it with
  the one warning inserted at the place of \<open>defel\<close>.
\<close>

theorem DefineOperator_unrecognized_attribute:
  assumes unrec: "\<forall>k\<in>set operator_attributes. pg_strcasecmp E (defname defel) k \<noteq> 0"
  shows "DefineOperator_defel E defel L = Inr (L, [attribute_not_recognized (defname defel)])
    \<and> fst (DefineOperator E names (pre @ defel # post) cat) =
        fst (DefineOperator E names (pre @ post) cat)
    \<and> fst (snd (DefineOperator E names (pre @ defel # post) cat)) =
        fst (snd (DefineOperator E names (pre @ post) cat))
    \<and> (\<forall>x L1 ws1.
          DefineOperator_namespace E cat names = Inr x
          \<and> DefineOperator_foreach E pre initial_locals [] = (Inr L1, ws1)
          \<longrightarrow> (\<exists>ws2. snd (snd (DefineOperator E names (pre @ post) cat)) = ws1 @ ws2
                \<and> snd (snd (DefineOperator E names (pre @ defel # post) cat)) =
                    ws1 @ attribute_not_recognized (defname defel) # ws2))"
proof (intro conjI allI impI)
  show "DefineOperator_defel E defel L = Inr (L, [attribute_not_recognized (defname defel)])"
    using unrec by (rule defel_unrecognized)
next
  have same: "fst (DefineOperator_foreach E (pre @ defel # post) initial_locals []) =
    fst (DefineOperator_foreach E (pre @ post) initial_locals [])"
    using unrec by (rule foreach_insert_unrecognized)
  from DefineOperator_foreach_cong [OF same]
  show "fst (DefineOperator E names (pre @ defel # post) cat) =
    fst (DefineOperator E names (pre @ post) cat)"
    and "fst (snd (DefineOperator E names (pre @ defel # post) cat)) =
    fst (snd (DefineOperator E names (pre @ post) cat))"
    by simp_all
next
  fix x L1 ws1
  assume "DefineOperator_namespace E cat names = Inr x
    \<and> DefineOperator_foreach E pre initial_locals [] = (Inr L1, ws1)"
  then have ns: "DefineOperator_namespace E cat names = Inr x"
    and pre: "DefineOperator_foreach E pre initial_locals [] = (Inr L1, ws1)"
    by simp_all
  from foreach_insert_unrecognized_notices [OF unrec pre, of post]
  show "\<exists>ws2. snd (snd (DefineOperator E names (pre @ post) cat)) = ws1 @ ws2
    \<and> snd (snd (DefineOperator E names (pre @ defel # post) cat)) =
        ws1 @ attribute_not_recognized (defname defel) # ws2"
    by (simp add: DefineOperator_notices [OF ns])
qed

subsection \<open>Required arguments\<close>

text \<open>
  Claim C6. If no parameter names the procedure, the command fails, and when the
  namespace step and the parameter loop raised nothing the failure is the error
  \<open>ERRCODE_INVALID_FUNCTION_DEFINITION\<close> of line 154. If no parameter is a left or a
  right argument, the command fails as well, and when moreover a procedure was named the
  failure is the error \<open>ERRCODE_INVALID_FUNCTION_DEFINITION\<close> of line 165. In both cases
  the catalog is unchanged.
\<close>

theorem DefineOperator_required_arguments:
  "((\<forall>d\<in>set parameters. pg_strcasecmp E (defname d) ''procedure'' \<noteq> 0)
      \<longrightarrow> (\<exists>e. fst (DefineOperator E names parameters cat) = Inl e)
        \<and> (\<forall>x L ws. DefineOperator_namespace E cat names = Inr x
              \<and> DefineOperator_foreach E parameters initial_locals [] = (Inr L, ws)
              \<longrightarrow> DefineOperator E names parameters cat =
                    (Inl (ereport_ERROR ERRCODE_INVALID_FUNCTION_DEFINITION
                            ''operator__ procedure must be specified''), cat, ws)))
   \<and> ((\<forall>d\<in>set parameters. pg_strcasecmp E (defname d) ''leftarg'' \<noteq> 0
                            \<and> pg_strcasecmp E (defname d) ''rightarg'' \<noteq> 0)
      \<longrightarrow> (\<exists>e. fst (DefineOperator E names parameters cat) = Inl e)
        \<and> (\<forall>x L ws. DefineOperator_namespace E cat names = Inr x
              \<and> DefineOperator_foreach E parameters initial_locals [] = (Inr L, ws)
              \<and> functionName L \<noteq> []
              \<longrightarrow> DefineOperator E names parameters cat =
                    (Inl (ereport_ERROR ERRCODE_INVALID_FUNCTION_DEFINITION
                            ''at least one of leftarg or rightarg must be specified''),
                     cat, ws)))"
proof (intro conjI impI)
  assume noproc: "\<forall>d\<in>set parameters. pg_strcasecmp E (defname d) ''procedure'' \<noteq> 0"
  have types: "DefineOperator_types E cat L = Inl procedure_must_be_specified"
    if "DefineOperator_foreach E parameters initial_locals [] = (Inr L, ws)" for L ws
  proof -
    from foreach_functionName [OF noproc that] have "functionName L = []"
      by (simp add: initial_locals_def)
    then show ?thesis by (simp add: DefineOperator_types_def)
  qed
  show "\<exists>e. fst (DefineOperator E names parameters cat) = Inl e"
  proof (cases rule: namespace_cases [of E cat names])
    case (error e)
    then show ?thesis by (simp add: DefineOperator_namespace_error)
  next
    case ns: (ok oprNamespace oprName)
    show ?thesis
    proof (cases rule: foreach_cases [of E parameters initial_locals "[]"])
      case (error e ws)
      with ns show ?thesis by (simp add: DefineOperator_foreach_error)
    next
      case (ok L ws)
      with ns types [OF ok] show ?thesis by (simp add: DefineOperator_types_error)
    qed
  qed
  show "\<forall>x L ws. DefineOperator_namespace E cat names = Inr x
      \<and> DefineOperator_foreach E parameters initial_locals [] = (Inr L, ws)
      \<longrightarrow> DefineOperator E names parameters cat =
            (Inl (ereport_ERROR ERRCODE_INVALID_FUNCTION_DEFINITION
                    ''operator__ procedure must be specified''), cat, ws)"
  proof (intro allI impI, elim conjE)
    fix x L ws
    assume ns: "DefineOperator_namespace E cat names = Inr x"
      and loop: "DefineOperator_foreach E parameters initial_locals [] = (Inr L, ws)"
    obtain oprNamespace oprName where "x = (oprNamespace, oprName)" by (cases x)
    with ns loop types [OF loop]
    show "DefineOperator E names parameters cat =
      (Inl (ereport_ERROR ERRCODE_INVALID_FUNCTION_DEFINITION
              ''operator__ procedure must be specified''), cat, ws)"
      by (simp add: DefineOperator_types_error procedure_must_be_specified_def)
  qed
next
  assume noargs: "\<forall>d\<in>set parameters. pg_strcasecmp E (defname d) ''leftarg'' \<noteq> 0
    \<and> pg_strcasecmp E (defname d) ''rightarg'' \<noteq> 0"
  have types: "DefineOperator_types E cat L =
      Inl (if functionName L = [] then procedure_must_be_specified
           else leftarg_or_rightarg_must_be_specified)"
    if "DefineOperator_foreach E parameters initial_locals [] = (Inr L, ws)" for L ws
  proof -
    from foreach_typeNames [OF noargs that]
    have "typeName1 L = None" and "typeName2 L = None"
      by (simp_all add: initial_locals_def)
    then show ?thesis
      by (simp add: DefineOperator_types_def typeName_to_typeId_def OidIsValid_def)
  qed
  show "\<exists>e. fst (DefineOperator E names parameters cat) = Inl e"
  proof (cases rule: namespace_cases [of E cat names])
    case (error e)
    then show ?thesis by (simp add: DefineOperator_namespace_error)
  next
    case ns: (ok oprNamespace oprName)
    show ?thesis
    proof (cases rule: foreach_cases [of E parameters initial_locals "[]"])
      case (error e ws)
      with ns show ?thesis by (simp add: DefineOperator_foreach_error)
    next
      case (ok L ws)
      from DefineOperator_types_error [OF ns ok types [OF ok]] show ?thesis by simp
    qed
  qed
  show "\<forall>x L ws. DefineOperator_namespace E cat names = Inr x
      \<and> DefineOperator_foreach E parameters initial_locals [] = (Inr L, ws)
      \<and> functionName L \<noteq> []
      \<longrightarrow> DefineOperator E names parameters cat =
            (Inl (ereport_ERROR ERRCODE_INVALID_FUNCTION_DEFINITION
                    ''at least one of leftarg or rightarg must be specified''), cat, ws)"
  proof (intro allI impI, elim conjE)
    fix x L ws
    assume ns: "DefineOperator_namespace E cat names = Inr x"
      and loop: "DefineOperator_foreach E parameters initial_locals [] = (Inr L, ws)"
      and named: "functionName L \<noteq> []"
    obtain oprNamespace oprName where "x = (oprNamespace, oprName)" by (cases x)
    with ns loop types [OF loop] named
    show "DefineOperator E names parameters cat =
      (Inl (ereport_ERROR ERRCODE_INVALID_FUNCTION_DEFINITION
              ''at least one of leftarg or rightarg must be specified''), cat, ws)"
      by (simp add: DefineOperator_types_error leftarg_or_rightarg_must_be_specified_def)
  qed
qed

subsection \<open>The errors of each step\<close>

lemma namespace_acl_error:
  assumes "QualifiedNameGetCreationNamespace E cat names = Inr (oprNamespace, oprName)"
    and "pg_namespace_aclcheck E cat oprNamespace (GetUserId E) ACL_CREATE \<noteq> ACLCHECK_OK"
  shows "DefineOperator_namespace E cat names =
    Inl (aclcheck_error (pg_namespace_aclcheck E cat oprNamespace (GetUserId E) ACL_CREATE)
           ACL_KIND_NAMESPACE (get_namespace_name E cat oprNamespace))"
  using assms by (simp add: DefineOperator_namespace_def)

lemma types_acl_error1:
  assumes "functionName L \<noteq> []"
    and "typeName1 L = Some tn"
    and "typenameTypeId E cat tn = Inr typeId1"
    and "typeName_to_typeId E cat (typeName2 L) = Inr typeId2"
    and "OidIsValid E typeId1 \<or> OidIsValid E typeId2"
    and "pg_type_aclcheck E cat typeId1 (GetUserId E) ACL_USAGE \<noteq> ACLCHECK_OK"
  shows "DefineOperator_types E cat L =
    Inl (aclcheck_error_type (pg_type_aclcheck E cat typeId1 (GetUserId E) ACL_USAGE) typeId1)"
  using assms by (auto simp add: DefineOperator_types_def typeName_to_typeId_def)

lemma types_acl_error2:
  assumes "functionName L \<noteq> []"
    and "typeName_to_typeId E cat (typeName1 L) = Inr typeId1"
    and "typeName2 L = Some tn"
    and "typenameTypeId E cat tn = Inr typeId2"
    and "OidIsValid E typeId1 \<or> OidIsValid E typeId2"
    and "typeName1 L = None
          \<or> pg_type_aclcheck E cat typeId1 (GetUserId E) ACL_USAGE = ACLCHECK_OK"
    and "pg_type_aclcheck E cat typeId2 (GetUserId E) ACL_USAGE \<noteq> ACLCHECK_OK"
  shows "DefineOperator_types E cat L =
    Inl (aclcheck_error_type (pg_type_aclcheck E cat typeId2 (GetUserId E) ACL_USAGE) typeId2)"
  using assms by (auto simp add: DefineOperator_types_def typeName_to_typeId_def)

lemma function_acl_error:
  assumes "function_signature E typeId1 typeId2 = (nargs, typeid)"
    and "LookupFuncName E cat (functionName L) nargs typeid False = Inr functionOid"
    and "pg_proc_aclcheck E cat functionOid (GetUserId E) ACL_EXECUTE \<noteq> ACLCHECK_OK"
  shows "DefineOperator_function E cat L typeId1 typeId2 =
    Inl (aclcheck_error (pg_proc_aclcheck E cat functionOid (GetUserId E) ACL_EXECUTE)
           ACL_KIND_PROC (NameListToString E (functionName L)))"
  using assms by (simp add: DefineOperator_function_def)

lemma function_rettype_acl_error:
  assumes "function_signature E typeId1 typeId2 = (nargs, typeid)"
    and "LookupFuncName E cat (functionName L) nargs typeid False = Inr functionOid"
    and "pg_proc_aclcheck E cat functionOid (GetUserId E) ACL_EXECUTE = ACLCHECK_OK"
    and "pg_type_aclcheck E cat (get_func_rettype E cat functionOid) (GetUserId E) ACL_USAGE
          \<noteq> ACLCHECK_OK"
  shows "DefineOperator_function E cat L typeId1 typeId2 =
    Inl (aclcheck_error_type
           (pg_type_aclcheck E cat (get_func_rettype E cat functionOid) (GetUserId E) ACL_USAGE)
           (get_func_rettype E cat functionOid))"
  using assms by (simp add: DefineOperator_function_def Let_def)

lemma restrict_rettype_error:
  assumes "restrictionName L \<noteq> []"
    and "LookupFuncName E cat (restrictionName L) 4
           [INTERNALOID E, OIDOID E, INTERNALOID E, INT4OID E] False = Inr restrictionOid"
    and "get_func_rettype E cat restrictionOid \<noteq> FLOAT8OID E"
  shows "DefineOperator_restrict E cat L =
    Inl (estimator_must_return_float8 ''restriction''
           (NameListToString E (restrictionName L)))"
  using assms by (simp add: DefineOperator_restrict_def)

lemma restrict_acl_error:
  assumes "restrictionName L \<noteq> []"
    and "LookupFuncName E cat (restrictionName L) 4
           [INTERNALOID E, OIDOID E, INTERNALOID E, INT4OID E] False = Inr restrictionOid"
    and "get_func_rettype E cat restrictionOid = FLOAT8OID E"
    and "pg_proc_aclcheck E cat restrictionOid (GetUserId E) ACL_EXECUTE \<noteq> ACLCHECK_OK"
  shows "DefineOperator_restrict E cat L =
    Inl (aclcheck_error (pg_proc_aclcheck E cat restrictionOid (GetUserId E) ACL_EXECUTE)
           ACL_KIND_PROC (NameListToString E (restrictionName L)))"
  using assms by (simp add: DefineOperator_restrict_def)

lemma join_rettype_error:
  assumes "joinName L \<noteq> []"
    and "join_estimator_lookup E cat (joinName L) = Inr joinOid"
    and "get_func_rettype E cat joinOid \<noteq> FLOAT8OID E"
  shows "DefineOperator_join E cat L =
    Inl (estimator_must_return_float8 ''join'' (NameListToString E (joinName L)))"
  using assms by (simp add: DefineOperator_join_def)

lemma join_acl_error:
  assumes "joinName L \<noteq> []"
    and "join_estimator_lookup E cat (joinName L) = Inr joinOid"
    and "get_func_rettype E cat joinOid = FLOAT8OID E"
    and "pg_proc_aclcheck E cat joinOid (GetUserId E) ACL_EXECUTE \<noteq> ACLCHECK_OK"
  shows "DefineOperator_join E cat L =
    Inl (aclcheck_error (pg_proc_aclcheck E cat joinOid (GetUserId E) ACL_EXECUTE)
           ACL_KIND_PROC (NameListToString E (joinName L)))"
  using assms by (simp add: DefineOperator_join_def)

subsection \<open>Return type of the estimators\<close>

text \<open>
  Claim C7. Let the command have passed the namespace step, the parameter loop, the
  operand types and the underlying function. If a restriction estimator is named, its
  lookup finds a function, and that function does not return \<open>FLOAT8OID\<close>, the command
  ends with the error \<open>ERRCODE_INVALID_OBJECT_DEFINITION\<close> whose message holds the
  estimator's name as \<open>NameListToString\<close> prints it. The same holds for a join
  estimator, once the restriction estimator step has passed, for the function the
  three-stage lookup of lines 263 to 268 finds.
\<close>

theorem DefineOperator_estimator_return_type:
  assumes ns: "DefineOperator_namespace E cat names = Inr (oprNamespace, oprName)"
    and loop: "DefineOperator_foreach E parameters initial_locals [] = (Inr L, ws)"
    and types: "DefineOperator_types E cat L = Inr (typeId1, typeId2)"
    and func: "DefineOperator_function E cat L typeId1 typeId2 = Inr functionOid"
  shows
    "(\<forall>restrictionOid.
        restrictionName L \<noteq> []
        \<and> LookupFuncName E cat (restrictionName L) 4
             [INTERNALOID E, OIDOID E, INTERNALOID E, INT4OID E] False = Inr restrictionOid
        \<and> get_func_rettype E cat restrictionOid \<noteq> FLOAT8OID E
        \<longrightarrow> DefineOperator E names parameters cat =
              (Inl (ereport_ERROR ERRCODE_INVALID_OBJECT_DEFINITION
                      (''restriction estimator function ''
                         @ NameListToString E (restrictionName L)
                         @ '' must return type '' @ dquote @ ''float8'' @ dquote)),
               cat, ws))
     \<and> (\<forall>restrictionOid joinOid.
        DefineOperator_restrict E cat L = Inr restrictionOid
        \<and> joinName L \<noteq> []
        \<and> join_estimator_lookup E cat (joinName L) = Inr joinOid
        \<and> get_func_rettype E cat joinOid \<noteq> FLOAT8OID E
        \<longrightarrow> DefineOperator E names parameters cat =
              (Inl (ereport_ERROR ERRCODE_INVALID_OBJECT_DEFINITION
                      (''join estimator function ''
                         @ NameListToString E (joinName L)
                         @ '' must return type '' @ dquote @ ''float8'' @ dquote)),
               cat, ws))"
proof (intro conjI allI impI; elim conjE)
  fix restrictionOid
  assume "restrictionName L \<noteq> []"
    and "LookupFuncName E cat (restrictionName L) 4
           [INTERNALOID E, OIDOID E, INTERNALOID E, INT4OID E] False = Inr restrictionOid"
    and "get_func_rettype E cat restrictionOid \<noteq> FLOAT8OID E"
  then have "DefineOperator_restrict E cat L =
    Inl (estimator_must_return_float8 ''restriction''
           (NameListToString E (restrictionName L)))"
    by (rule restrict_rettype_error)
  from DefineOperator_restrict_error [OF ns loop types func this]
  show "DefineOperator E names parameters cat =
    (Inl (ereport_ERROR ERRCODE_INVALID_OBJECT_DEFINITION
            (''restriction estimator function '' @ NameListToString E (restrictionName L)
               @ '' must return type '' @ dquote @ ''float8'' @ dquote)), cat, ws)"
    by (simp add: estimator_must_return_float8_def)
next
  fix restrictionOid joinOid
  assume restr: "DefineOperator_restrict E cat L = Inr restrictionOid"
  assume "joinName L \<noteq> []"
    and "join_estimator_lookup E cat (joinName L) = Inr joinOid"
    and "get_func_rettype E cat joinOid \<noteq> FLOAT8OID E"
  then have "DefineOperator_join E cat L =
    Inl (estimator_must_return_float8 ''join'' (NameListToString E (joinName L)))"
    by (rule join_rettype_error)
  from DefineOperator_join_error [OF ns loop types func restr this]
  show "DefineOperator E names parameters cat =
    (Inl (ereport_ERROR ERRCODE_INVALID_OBJECT_DEFINITION
            (''join estimator function '' @ NameListToString E (joinName L)
               @ '' must return type '' @ dquote @ ''float8'' @ dquote)), cat, ws)"
    by (simp add: estimator_must_return_float8_def)
qed

subsection \<open>The command on the sample catalog\<close>

lemma sample_foreach:
  "DefineOperator_foreach (sample_services uid denied) (sample_parameters t1 t2 p r j)
     initial_locals [] = (Inr (sample_locals t1 t2 p r j), [])"
  by (simp add: sample_parameters_def sample_locals_def DefineOperator_defel_def
      initial_locals_def)

lemma sample_locals_sel [simp]:
  "functionName (sample_locals t1 t2 p r j) = [p]"
  "typeName1 (sample_locals t1 t2 p r j) = Some \<lparr>tn_names = [t1], setof = False\<rparr>"
  "typeName2 (sample_locals t1 t2 p r j) = Some \<lparr>tn_names = [t2], setof = False\<rparr>"
  "restrictionName (sample_locals t1 t2 p r j) = [r]"
  "joinName (sample_locals t1 t2 p r j) = [j]"
  "commutatorName (sample_locals t1 t2 p r j) = []"
  "negatorName (sample_locals t1 t2 p r j) = []"
  "canMerge (sample_locals t1 t2 p r j) = False"
  "canHash (sample_locals t1 t2 p r j) = False"
  by (simp_all add: sample_locals_def)

lemma sample_types:
  "(None, 23) \<notin> set denied
    \<Longrightarrow> DefineOperator_types (sample_services uid denied) cat
          (sample_locals ''int4'' ''int4'' p r j) = Inr (23, 23)"
  by (simp add: DefineOperator_types_def typeName_to_typeId_def OidIsValid_def sample_acl_def)

lemma sample_function:
  "(Some ACL_KIND_PROC, 177) \<notin> set denied \<Longrightarrow> (None, 23) \<notin> set denied
    \<Longrightarrow> DefineOperator_function (sample_services uid denied) cat
          (sample_locals t1 t2 ''int4pl'' r j) 23 23 = Inr 177"
  by (simp add: DefineOperator_function_def function_signature_def OidIsValid_def
      sample_acl_def sample_functions_def)

lemma sample_restrict:
  "(Some ACL_KIND_PROC, 101) \<notin> set denied
    \<Longrightarrow> DefineOperator_restrict (sample_services uid denied) cat
          (sample_locals t1 t2 p ''eqsel'' j) = Inr 101"
  by (simp add: DefineOperator_restrict_def sample_acl_def sample_functions_def)

lemma sample_join_lookup:
  "join_estimator_lookup (sample_services uid denied) cat [''eqjoinsel''] = Inr 105"
  "join_estimator_lookup (sample_services uid denied) cat [''oldjoinsel''] = Inr 106"
  "join_estimator_lookup (sample_services uid denied) cat [''intjoinsel''] = Inr 9002"
  by (simp_all add: join_estimator_lookup_def OidIsValid_def sample_functions_def)

lemma sample_join:
  "(Some ACL_KIND_PROC, 105) \<notin> set denied
    \<Longrightarrow> DefineOperator_join (sample_services uid denied) cat
          (sample_locals t1 t2 p r ''eqjoinsel'') = Inr 105"
  by (simp add: DefineOperator_join_def sample_join_lookup sample_acl_def sample_functions_def)

lemma sample_run:
  "DefineOperator (sample_services uid []) [n]
     (sample_parameters ''int4'' ''int4'' ''int4pl'' ''eqsel'' ''eqjoinsel'') cat =
   (Inr \<lparr>classId = 2617, objectId = 16384 + length cat, objectSubId = 0\<rparr>,
    cat @ [(n, 2200, 23, 23, 177)], [])"
  by (simp add: DefineOperator_reaches_OperatorCreate [OF sample_namespace sample_foreach
        sample_types sample_function sample_restrict sample_join])

subsection \<open>Permission checks\<close>

text \<open>
  Claim C8. Each of the seven permission checks of the command, when the command reaches
  it and the check does not return \<open>ACLCHECK_OK\<close>, ends the command with the
  authorization error of that check (\<open>aclcheck_error\<close> or \<open>aclcheck_error_type\<close>, with
  the result of the check and the object checked), the catalog unchanged. In the order of
  the source: \<open>ACL_CREATE\<close> on the creation namespace; \<open>ACL_USAGE\<close> on the left operand
  type, if named; \<open>ACL_USAGE\<close> on the right operand type, if named; \<open>ACL_EXECUTE\<close> on the
  underlying function; \<open>ACL_USAGE\<close> on its return type; \<open>ACL_EXECUTE\<close> on the
  restriction estimator, if named; \<open>ACL_EXECUTE\<close> on the join estimator, if named. A
  check is reached when all steps before it raised nothing, which the hypotheses of each
  part say.
\<close>

theorem DefineOperator_permission_checks:
  "(\<forall>oprNamespace oprName.
      QualifiedNameGetCreationNamespace E cat names = Inr (oprNamespace, oprName)
      \<and> pg_namespace_aclcheck E cat oprNamespace (GetUserId E) ACL_CREATE \<noteq> ACLCHECK_OK
      \<longrightarrow> DefineOperator E names parameters cat =
            (Inl (aclcheck_error
                    (pg_namespace_aclcheck E cat oprNamespace (GetUserId E) ACL_CREATE)
                    ACL_KIND_NAMESPACE (get_namespace_name E cat oprNamespace)), cat, []))
   \<and> (\<forall>x L ws.
      DefineOperator_namespace E cat names = Inr x
      \<and> DefineOperator_foreach E parameters initial_locals [] = (Inr L, ws)
      \<longrightarrow>
      (\<forall>tn typeId1 typeId2.
          functionName L \<noteq> []
          \<and> typeName1 L = Some tn
          \<and> typenameTypeId E cat tn = Inr typeId1
          \<and> typeName_to_typeId E cat (typeName2 L) = Inr typeId2
          \<and> (OidIsValid E typeId1 \<or> OidIsValid E typeId2)
          \<and> pg_type_aclcheck E cat typeId1 (GetUserId E) ACL_USAGE \<noteq> ACLCHECK_OK
          \<longrightarrow> DefineOperator E names parameters cat =
                (Inl (aclcheck_error_type
                        (pg_type_aclcheck E cat typeId1 (GetUserId E) ACL_USAGE) typeId1),
                 cat, ws))
      \<and> (\<forall>tn typeId1 typeId2.
          functionName L \<noteq> []
          \<and> typeName_to_typeId E cat (typeName1 L) = Inr typeId1
          \<and> typeName2 L = Some tn
          \<and> typenameTypeId E cat tn = Inr typeId2
          \<and> (OidIsValid E typeId1 \<or> OidIsValid E typeId2)
          \<and> (typeName1 L = None
               \<or> pg_type_aclcheck E cat typeId1 (GetUserId E) ACL_USAGE = ACLCHECK_OK)
          \<and> pg_type_aclcheck E cat typeId2 (GetUserId E) ACL_USAGE \<noteq> ACLCHECK_OK
          \<longrightarrow> DefineOperator E names parameters cat =
                (Inl (aclcheck_error_type
                        (pg_type_aclcheck E cat typeId2 (GetUserId E) ACL_USAGE) typeId2),
                 cat, ws))
      \<and> (\<forall>typeId1 typeId2.
          DefineOperator_types E cat L = Inr (typeId1, typeId2)
          \<longrightarrow>
          (\<forall>nargs typeid functionOid.
              function_signature E typeId1 typeId2 = (nargs, typeid)
              \<and> LookupFuncName E cat (functionName L) nargs typeid False = Inr functionOid
              \<and> pg_proc_aclcheck E cat functionOid (GetUserId E) ACL_EXECUTE \<noteq> ACLCHECK_OK
              \<longrightarrow> DefineOperator E names parameters cat =
                    (Inl (aclcheck_error
                            (pg_proc_aclcheck E cat functionOid (GetUserId E) ACL_EXECUTE)
                            ACL_KIND_PROC (NameListToString E (functionName L))), cat, ws))
          \<and> (\<forall>nargs typeid functionOid.
              function_signature E typeId1 typeId2 = (nargs, typeid)
              \<and> LookupFuncName E cat (functionName L) nargs typeid False = Inr functionOid
              \<and> pg_proc_aclcheck E cat functionOid (GetUserId E) ACL_EXECUTE = ACLCHECK_OK
              \<and> pg_type_aclcheck E cat (get_func_rettype E cat functionOid) (GetUserId E)
                   ACL_USAGE \<noteq> ACLCHECK_OK
              \<longrightarrow> DefineOperator E names parameters cat =
                    (Inl (aclcheck_error_type
                            (pg_type_aclcheck E cat (get_func_rettype E cat functionOid)
                               (GetUserId E) ACL_USAGE)
                            (get_func_rettype E cat functionOid)), cat, ws))
          \<and> (\<forall>functionOid.
              DefineOperator_function E cat L typeId1 typeId2 = Inr functionOid
              \<longrightarrow>
              (\<forall>restrictionOid.
                  restrictionName L \<noteq> []
                  \<and> LookupFuncName E cat (restrictionName L) 4
                       [INTERNALOID E, OIDOID E, INTERNALOID E, INT4OID E] False
                       = Inr restrictionOid
                  \<and> get_func_rettype E cat restrictionOid = FLOAT8OID E
                  \<and> pg_proc_aclcheck E cat restrictionOid (GetUserId E) ACL_EXECUTE
                       \<noteq> ACLCHECK_OK
                  \<longrightarrow> DefineOperator E names parameters cat =
                        (Inl (aclcheck_error
                                (pg_proc_aclcheck E cat restrictionOid (GetUserId E)
                                   ACL_EXECUTE)
                                ACL_KIND_PROC (NameListToString E (restrictionName L))),
                         cat, ws))
              \<and> (\<forall>restrictionOid joinOid.
                  DefineOperator_restrict E cat L = Inr restrictionOid
                  \<and> joinName L \<noteq> []
                  \<and> join_estimator_lookup E cat (joinName L) = Inr joinOid
                  \<and> get_func_rettype E cat joinOid = FLOAT8OID E
                  \<and> pg_proc_aclcheck E cat joinOid (GetUserId E) ACL_EXECUTE \<noteq> ACLCHECK_OK
                  \<longrightarrow> DefineOperator E names parameters cat =
                        (Inl (aclcheck_error
                                (pg_proc_aclcheck E cat joinOid (GetUserId E) ACL_EXECUTE)
                                ACL_KIND_PROC (NameListToString E (joinName L))),
                         cat, ws)))))"
proof (intro conjI allI impI; elim conjE)
  fix oprNamespace oprName
  assume "QualifiedNameGetCreationNamespace E cat names = Inr (oprNamespace, oprName)"
    and "pg_namespace_aclcheck E cat oprNamespace (GetUserId E) ACL_CREATE \<noteq> ACLCHECK_OK"
  then show "DefineOperator E names parameters cat =
    (Inl (aclcheck_error (pg_namespace_aclcheck E cat oprNamespace (GetUserId E) ACL_CREATE)
            ACL_KIND_NAMESPACE (get_namespace_name E cat oprNamespace)), cat, [])"
    by (intro DefineOperator_namespace_error namespace_acl_error)
next
  fix x L ws tn typeId1 typeId2
  assume ns: "DefineOperator_namespace E cat names = Inr x"
    and loop: "DefineOperator_foreach E parameters initial_locals [] = (Inr L, ws)"
  assume "functionName L \<noteq> []" "typeName1 L = Some tn"
    "typenameTypeId E cat tn = Inr typeId1"
    "typeName_to_typeId E cat (typeName2 L) = Inr typeId2"
    "OidIsValid E typeId1 \<or> OidIsValid E typeId2"
    "pg_type_aclcheck E cat typeId1 (GetUserId E) ACL_USAGE \<noteq> ACLCHECK_OK"
  then have "DefineOperator_types E cat L =
    Inl (aclcheck_error_type (pg_type_aclcheck E cat typeId1 (GetUserId E) ACL_USAGE) typeId1)"
    by (rule types_acl_error1)
  with ns loop show "DefineOperator E names parameters cat =
    (Inl (aclcheck_error_type (pg_type_aclcheck E cat typeId1 (GetUserId E) ACL_USAGE) typeId1),
     cat, ws)"
    by (cases x) (simp add: DefineOperator_types_error)
next
  fix x L ws tn typeId1 typeId2
  assume ns: "DefineOperator_namespace E cat names = Inr x"
    and loop: "DefineOperator_foreach E parameters initial_locals [] = (Inr L, ws)"
  assume "functionName L \<noteq> []"
    "typeName_to_typeId E cat (typeName1 L) = Inr typeId1"
    "typeName2 L = Some tn"
    "typenameTypeId E cat tn = Inr typeId2"
    "OidIsValid E typeId1 \<or> OidIsValid E typeId2"
    "typeName1 L = None \<or> pg_type_aclcheck E cat typeId1 (GetUserId E) ACL_USAGE = ACLCHECK_OK"
    "pg_type_aclcheck E cat typeId2 (GetUserId E) ACL_USAGE \<noteq> ACLCHECK_OK"
  then have "DefineOperator_types E cat L =
    Inl (aclcheck_error_type (pg_type_aclcheck E cat typeId2 (GetUserId E) ACL_USAGE) typeId2)"
    by (rule types_acl_error2)
  with ns loop show "DefineOperator E names parameters cat =
    (Inl (aclcheck_error_type (pg_type_aclcheck E cat typeId2 (GetUserId E) ACL_USAGE) typeId2),
     cat, ws)"
    by (cases x) (simp add: DefineOperator_types_error)
next
  fix x L ws typeId1 typeId2 nargs typeid functionOid
  assume ns: "DefineOperator_namespace E cat names = Inr x"
    and loop: "DefineOperator_foreach E parameters initial_locals [] = (Inr L, ws)"
    and types: "DefineOperator_types E cat L = Inr (typeId1, typeId2)"
  assume "function_signature E typeId1 typeId2 = (nargs, typeid)"
    "LookupFuncName E cat (functionName L) nargs typeid False = Inr functionOid"
    "pg_proc_aclcheck E cat functionOid (GetUserId E) ACL_EXECUTE \<noteq> ACLCHECK_OK"
  then have "DefineOperator_function E cat L typeId1 typeId2 =
    Inl (aclcheck_error (pg_proc_aclcheck E cat functionOid (GetUserId E) ACL_EXECUTE)
           ACL_KIND_PROC (NameListToString E (functionName L)))"
    by (rule function_acl_error)
  with ns loop types show "DefineOperator E names parameters cat =
    (Inl (aclcheck_error (pg_proc_aclcheck E cat functionOid (GetUserId E) ACL_EXECUTE)
            ACL_KIND_PROC (NameListToString E (functionName L))), cat, ws)"
    by (cases x) (simp add: DefineOperator_function_error)
next
  fix x L ws typeId1 typeId2 nargs typeid functionOid
  assume ns: "DefineOperator_namespace E cat names = Inr x"
    and loop: "DefineOperator_foreach E parameters initial_locals [] = (Inr L, ws)"
    and types: "DefineOperator_types E cat L = Inr (typeId1, typeId2)"
  assume "function_signature E typeId1 typeId2 = (nargs, typeid)"
    "LookupFuncName E cat (functionName L) nargs typeid False = Inr functionOid"
    "pg_proc_aclcheck E cat functionOid (GetUserId E) ACL_EXECUTE = ACLCHECK_OK"
    "pg_type_aclcheck E cat (get_func_rettype E cat functionOid) (GetUserId E) ACL_USAGE
      \<noteq> ACLCHECK_OK"
  then have "DefineOperator_function E cat L typeId1 typeId2 =
    Inl (aclcheck_error_type
           (pg_type_aclcheck E cat (get_func_rettype E cat functionOid) (GetUserId E) ACL_USAGE)
           (get_func_rettype E cat functionOid))"
    by (rule function_rettype_acl_error)
  with ns loop types show "DefineOperator E names parameters cat =
    (Inl (aclcheck_error_type
            (pg_type_aclcheck E cat (get_func_rettype E cat functionOid) (GetUserId E) ACL_USAGE)
            (get_func_rettype E cat functionOid)), cat, ws)"
    by (cases x) (simp add: DefineOperator_function_error)
next
  fix x L ws typeId1 typeId2 functionOid restrictionOid
  assume ns: "DefineOperator_namespace E cat names = Inr x"
    and loop: "DefineOperator_foreach E parameters initial_locals [] = (Inr L, ws)"
    and types: "DefineOperator_types E cat L = Inr (typeId1, typeId2)"
    and func: "DefineOperator_function E cat L typeId1 typeId2 = Inr functionOid"
  assume "restrictionName L \<noteq> []"
    "LookupFuncName E cat (restrictionName L) 4
       [INTERNALOID E, OIDOID E, INTERNALOID E, INT4OID E] False = Inr restrictionOid"
    "get_func_rettype E cat restrictionOid = FLOAT8OID E"
    "pg_proc_aclcheck E cat restrictionOid (GetUserId E) ACL_EXECUTE \<noteq> ACLCHECK_OK"
  then have "DefineOperator_restrict E cat L =
    Inl (aclcheck_error (pg_proc_aclcheck E cat restrictionOid (GetUserId E) ACL_EXECUTE)
           ACL_KIND_PROC (NameListToString E (restrictionName L)))"
    by (rule restrict_acl_error)
  with ns loop types func show "DefineOperator E names parameters cat =
    (Inl (aclcheck_error (pg_proc_aclcheck E cat restrictionOid (GetUserId E) ACL_EXECUTE)
            ACL_KIND_PROC (NameListToString E (restrictionName L))), cat, ws)"
    by (cases x) (simp add: DefineOperator_restrict_error)
next
  fix x L ws typeId1 typeId2 functionOid restrictionOid joinOid
  assume ns: "DefineOperator_namespace E cat names = Inr x"
    and loop: "DefineOperator_foreach E parameters initial_locals [] = (Inr L, ws)"
    and types: "DefineOperator_types E cat L = Inr (typeId1, typeId2)"
    and func: "DefineOperator_function E cat L typeId1 typeId2 = Inr functionOid"
    and restr: "DefineOperator_restrict E cat L = Inr restrictionOid"
  assume "joinName L \<noteq> []"
    "join_estimator_lookup E cat (joinName L) = Inr joinOid"
    "get_func_rettype E cat joinOid = FLOAT8OID E"
    "pg_proc_aclcheck E cat joinOid (GetUserId E) ACL_EXECUTE \<noteq> ACLCHECK_OK"
  then have "DefineOperator_join E cat L =
    Inl (aclcheck_error (pg_proc_aclcheck E cat joinOid (GetUserId E) ACL_EXECUTE)
           ACL_KIND_PROC (NameListToString E (joinName L)))"
    by (rule join_acl_error)
  with ns loop types func restr show "DefineOperator E names parameters cat =
    (Inl (aclcheck_error (pg_proc_aclcheck E cat joinOid (GetUserId E) ACL_EXECUTE)
            ACL_KIND_PROC (NameListToString E (joinName L))), cat, ws)"
    by (cases x) (simp add: DefineOperator_join_error)
qed

lemma sample_types_bool:
  "(None, 16) \<notin> set denied \<Longrightarrow> (None, 23) \<in> set denied
    \<Longrightarrow> DefineOperator_types (sample_services uid denied) cat
          (sample_locals ''bool'' ''int4'' p r j) = Inl (aclcheck_error_type ACLCHECK_NO_PRIV 23)"
  by (simp add: DefineOperator_types_def typeName_to_typeId_def OidIsValid_def sample_acl_def)

theorem DefineOperator_permission_checks_witness:
  "DefineOperator (sample_services 10 [(Some ACL_KIND_NAMESPACE, 2200)]) [''+'']
      (sample_parameters ''int4'' ''int4'' ''int4pl'' ''eqsel'' ''eqjoinsel'') [] =
     (Inl (aclcheck_error ACLCHECK_NO_PRIV ACL_KIND_NAMESPACE ''public''), [], [])
   \<and> DefineOperator (sample_services 10 [(None, 23)]) [''+'']
      (sample_parameters ''int4'' ''int4'' ''int4pl'' ''eqsel'' ''eqjoinsel'') [] =
     (Inl (aclcheck_error_type ACLCHECK_NO_PRIV 23), [], [])
   \<and> DefineOperator (sample_services 10 [(None, 23)]) [''+'']
      (sample_parameters ''bool'' ''int4'' ''int4pl'' ''eqsel'' ''eqjoinsel'') [] =
     (Inl (aclcheck_error_type ACLCHECK_NO_PRIV 23), [], [])
   \<and> DefineOperator (sample_services 10 [(Some ACL_KIND_PROC, 177)]) [''+'']
      (sample_parameters ''int4'' ''int4'' ''int4pl'' ''eqsel'' ''eqjoinsel'') [] =
     (Inl (aclcheck_error ACLCHECK_NO_PRIV ACL_KIND_PROC ''int4pl''), [], [])
   \<and> DefineOperator (sample_services 10 [(None, 16)]) [''+'']
      (sample_parameters ''int4'' ''int4'' ''int4eq'' ''eqsel'' ''eqjoinsel'') [] =
     (Inl (aclcheck_error_type ACLCHECK_NO_PRIV 16), [], [])
   \<and> DefineOperator (sample_services 10 [(Some ACL_KIND_PROC, 101)]) [''+'']
      (sample_parameters ''int4'' ''int4'' ''int4pl'' ''eqsel'' ''eqjoinsel'') [] =
     (Inl (aclcheck_error ACLCHECK_NO_PRIV ACL_KIND_PROC ''eqsel''), [], [])
   \<and> DefineOperator (sample_services 10 [(Some ACL_KIND_PROC, 105)]) [''+'']
      (sample_parameters ''int4'' ''int4'' ''int4pl'' ''eqsel'' ''eqjoinsel'') [] =
     (Inl (aclcheck_error ACLCHECK_NO_PRIV ACL_KIND_PROC ''eqjoinsel''), [], [])"
proof (intro conjI)
  let ?ps = "sample_parameters ''int4'' ''int4'' ''int4pl'' ''eqsel'' ''eqjoinsel''"
  note parts = DefineOperator_permission_checks [THEN conjunct2, rule_format, OF conjI,
      OF sample_namespace sample_foreach]
  note after_types = parts [THEN conjunct2, THEN conjunct2, rule_format, OF _ sample_types]
  note after_function = after_types [THEN conjunct2, THEN conjunct2, rule_format,
      OF _ _ sample_function]
  show "DefineOperator (sample_services 10 [(Some ACL_KIND_NAMESPACE, 2200)]) [''+''] ?ps [] =
     (Inl (aclcheck_error ACLCHECK_NO_PRIV ACL_KIND_NAMESPACE ''public''), [], [])"
    using DefineOperator_permission_checks [THEN conjunct1, rule_format,
        where E = "sample_services 10 [(Some ACL_KIND_NAMESPACE, 2200)]" and cat = "[]"
          and names = "[''+'']" and oprNamespace = 2200 and oprName = "''+''"
          and parameters = ?ps]
    by (simp add: sample_acl_def)
  show "DefineOperator (sample_services 10 [(None, 23)]) [''+''] ?ps [] =
     (Inl (aclcheck_error_type ACLCHECK_NO_PRIV 23), [], [])"
    using parts [THEN conjunct1, rule_format,
        where denied = "[(None, 23)]" and uid = 10 and cat = "[]" and n = "''+''"
          and ?t1.0 = "''int4''" and ?t2.0 = "''int4''" and p = "''int4pl''"
          and r = "''eqsel''" and j = "''eqjoinsel''"
          and tn = "\<lparr>tn_names = [''int4''], setof = False\<rparr>"
          and ?typeId1.0 = 23 and ?typeId2.0 = 23]
    by (simp add: sample_acl_def typeName_to_typeId_def OidIsValid_def)
  show "DefineOperator (sample_services 10 [(None, 23)]) [''+'']
      (sample_parameters ''bool'' ''int4'' ''int4pl'' ''eqsel'' ''eqjoinsel'') [] =
     (Inl (aclcheck_error_type ACLCHECK_NO_PRIV 23), [], [])"
    using parts [THEN conjunct2, THEN conjunct1, rule_format,
        where denied = "[(None, 23)]" and uid = 10 and cat = "[]" and n = "''+''"
          and ?t1.0 = "''bool''" and ?t2.0 = "''int4''" and p = "''int4pl''"
          and r = "''eqsel''" and j = "''eqjoinsel''"
          and tn = "\<lparr>tn_names = [''int4''], setof = False\<rparr>"
          and ?typeId1.0 = 16 and ?typeId2.0 = 23]
    by (simp add: sample_acl_def typeName_to_typeId_def OidIsValid_def)
  show "DefineOperator (sample_services 10 [(Some ACL_KIND_PROC, 177)]) [''+''] ?ps [] =
     (Inl (aclcheck_error ACLCHECK_NO_PRIV ACL_KIND_PROC ''int4pl''), [], [])"
    using after_types [THEN conjunct1, rule_format,
        where denied = "[(Some ACL_KIND_PROC, 177)]" and uid = 10 and cat = "[]"
          and n = "''+''" and p = "''int4pl''" and r = "''eqsel''" and j = "''eqjoinsel''"
          and nargs = 2 and typeid = "[23, 23]" and functionOid = 177]
    by (simp add: sample_acl_def function_signature_def OidIsValid_def sample_functions_def)
  show "DefineOperator (sample_services 10 [(None, 16)]) [''+'']
      (sample_parameters ''int4'' ''int4'' ''int4eq'' ''eqsel'' ''eqjoinsel'') [] =
     (Inl (aclcheck_error_type ACLCHECK_NO_PRIV 16), [], [])"
    using after_types [THEN conjunct2, THEN conjunct1, rule_format,
        where denied = "[(None, 16)]" and uid = 10 and cat = "[]"
          and n = "''+''" and p = "''int4eq''" and r = "''eqsel''" and j = "''eqjoinsel''"
          and nargs = 2 and typeid = "[23, 23]" and functionOid = 65]
    by (simp add: sample_acl_def function_signature_def OidIsValid_def sample_functions_def)
  show "DefineOperator (sample_services 10 [(Some ACL_KIND_PROC, 101)]) [''+''] ?ps [] =
     (Inl (aclcheck_error ACLCHECK_NO_PRIV ACL_KIND_PROC ''eqsel''), [], [])"
    using after_function [THEN conjunct1, rule_format,
        where denied = "[(Some ACL_KIND_PROC, 101)]" and uid = 10 and cat = "[]"
          and n = "''+''" and r = "''eqsel''" and j = "''eqjoinsel''"
          and restrictionOid = 101]
    by (simp add: sample_acl_def sample_functions_def)
  show "DefineOperator (sample_services 10 [(Some ACL_KIND_PROC, 105)]) [''+''] ?ps [] =
     (Inl (aclcheck_error ACLCHECK_NO_PRIV ACL_KIND_PROC ''eqjoinsel''), [], [])"
    using after_function [THEN conjunct2, rule_format,
        where denied = "[(Some ACL_KIND_PROC, 105)]" and uid = 10 and cat = "[]"
          and n = "''+''" and r = "''eqsel''" and j = "''eqjoinsel''"
          and restrictionOid = 101 and joinOid = 105]
    by (simp add: sample_acl_def sample_functions_def sample_restrict sample_join_lookup)
qed

theorem DefineOperator_required_arguments_witness:
  "list_all (\<lambda>d. pg_strcasecmp (sample_services 10 []) (defname d) ''procedure'' \<noteq> 0)
      [sample_defel ''leftarg'' (sample_type ''int4'' False)]
   \<and> DefineOperator (sample_services 10 []) [''+'']
        [sample_defel ''leftarg'' (sample_type ''int4'' False)] [] =
      (Inl (ereport_ERROR ERRCODE_INVALID_FUNCTION_DEFINITION
              ''operator__ procedure must be specified''), [], [])
   \<and> list_all (\<lambda>d. pg_strcasecmp (sample_services 10 []) (defname d) ''leftarg'' \<noteq> 0
                   \<and> pg_strcasecmp (sample_services 10 []) (defname d) ''rightarg'' \<noteq> 0)
      [sample_defel ''procedure'' (Some (ArgString ''int4um''))]
   \<and> DefineOperator (sample_services 10 []) [''+'']
        [sample_defel ''procedure'' (Some (ArgString ''int4um''))] [] =
      (Inl (ereport_ERROR ERRCODE_INVALID_FUNCTION_DEFINITION
              ''at least one of leftarg or rightarg must be specified''), [], [])"
proof -
  let ?E = "sample_services 10 [] :: sample_catalog services"
  let ?la = "[sample_defel ''leftarg'' (sample_type ''int4'' False)]"
  let ?pr = "[sample_defel ''procedure'' (Some (ArgString ''int4um''))]"
  have la: "\<forall>d\<in>set ?la. pg_strcasecmp ?E (defname d) ''procedure'' \<noteq> 0"
    by simp
  have pr: "\<forall>d\<in>set ?pr. pg_strcasecmp ?E (defname d) ''leftarg'' \<noteq> 0
      \<and> pg_strcasecmp ?E (defname d) ''rightarg'' \<noteq> 0"
    by simp
  have ns: "DefineOperator_namespace ?E [] [''+''] = Inr (2200, ''+'')"
    by (simp add: sample_namespace)
  have loop_pr: "DefineOperator_foreach ?E ?pr initial_locals [] =
    (Inr (initial_locals\<lparr>functionName := [''int4um'']\<rparr>), [])"
    by (simp add: DefineOperator_defel_def)
  from DefineOperator_required_arguments [of ?la ?E "[''+'']" "[]", THEN conjunct1, THEN mp,
      OF la, THEN conjunct2, rule_format, OF conjI, OF ns sample_foreach_leftarg]
  have "DefineOperator ?E [''+''] ?la [] =
      (Inl (ereport_ERROR ERRCODE_INVALID_FUNCTION_DEFINITION
              ''operator__ procedure must be specified''), [], [])" .
  moreover
  from DefineOperator_required_arguments [of ?pr ?E "[''+'']" "[]", THEN conjunct2, THEN mp,
      OF pr, THEN conjunct2, rule_format, OF conjI, OF ns conjI, OF loop_pr]
  have "DefineOperator ?E [''+''] ?pr [] =
      (Inl (ereport_ERROR ERRCODE_INVALID_FUNCTION_DEFINITION
              ''at least one of leftarg or rightarg must be specified''), [], [])"
    by simp
  ultimately show ?thesis
    using la pr by (simp add: list_all_iff)
qed

theorem DefineOperator_estimator_return_type_witness:
  "DefineOperator (sample_services 10 []) [''+'']
      (sample_parameters ''int4'' ''int4'' ''int4pl'' ''intsel'' ''eqjoinsel'') [] =
     (Inl (ereport_ERROR ERRCODE_INVALID_OBJECT_DEFINITION
            (''restriction estimator function intsel must return type ''
               @ dquote @ ''float8'' @ dquote)), [], [])
   \<and> DefineOperator (sample_services 10 []) [''+'']
      (sample_parameters ''int4'' ''int4'' ''int4pl'' ''eqsel'' ''intjoinsel'') [] =
     (Inl (ereport_ERROR ERRCODE_INVALID_OBJECT_DEFINITION
            (''join estimator function intjoinsel must return type ''
               @ dquote @ ''float8'' @ dquote)), [], [])"
proof -
  let ?E = "sample_services 10 [] :: sample_catalog services"
  have ns: "DefineOperator_namespace ?E [] [''+''] = Inr (2200, ''+'')"
    by (simp add: sample_namespace)
  have types: "DefineOperator_types ?E [] (sample_locals ''int4'' ''int4'' p r j) = Inr (23, 23)"
    for p r j by (simp add: sample_types)
  have func: "DefineOperator_function ?E [] (sample_locals ''int4'' ''int4'' ''int4pl'' r j) 23 23
    = Inr 177" for r j by (simp add: sample_function)
  from DefineOperator_estimator_return_type [OF ns sample_foreach types func,
      of "''intsel''" "''eqjoinsel''", THEN conjunct1, rule_format, where restrictionOid = 9001]
  have "DefineOperator ?E [''+'']
      (sample_parameters ''int4'' ''int4'' ''int4pl'' ''intsel'' ''eqjoinsel'') [] =
     (Inl (ereport_ERROR ERRCODE_INVALID_OBJECT_DEFINITION
            (''restriction estimator function intsel must return type ''
               @ dquote @ ''float8'' @ dquote)), [], [])"
    by (simp add: sample_functions_def)
  moreover
  from DefineOperator_estimator_return_type [OF ns sample_foreach types func,
      of "''eqsel''" "''intjoinsel''", THEN conjunct2, rule_format,
      where restrictionOid = 101 and joinOid = 9002]
  have "DefineOperator ?E [''+'']
      (sample_parameters ''int4'' ''int4'' ''int4pl'' ''eqsel'' ''intjoinsel'') [] =
     (Inl (ereport_ERROR ERRCODE_INVALID_OBJECT_DEFINITION
            (''join estimator function intjoinsel must return type ''
               @ dquote @ ''float8'' @ dquote)), [], [])"
    by (simp add: sample_functions_def sample_restrict sample_join_lookup)
  ultimately show ?thesis by simp
qed

lemma sample_unrecognized:
  "\<forall>k\<in>set operator_attributes. pg_strcasecmp (sample_services uid denied) ''Foo'' k \<noteq> 0"
  by (simp add: operator_attributes_def)

theorem DefineOperator_unrecognized_attribute_witness:
  "list_all (\<lambda>k. pg_strcasecmp (sample_services 10 []) ''Foo'' k \<noteq> 0) operator_attributes
   \<and> DefineOperator (sample_services 10 []) [''+'']
        (sample_defel ''Foo'' None
           # sample_parameters ''int4'' ''int4'' ''int4pl'' ''eqsel'' ''eqjoinsel'') [] =
      (Inr \<lparr>classId = 2617, objectId = 16384, objectSubId = 0\<rparr>,
       [(''+'', 2200, 23, 23, 177)],
       [ereport_WARNING ERRCODE_SYNTAX_ERROR
          (''operator__ attribute '' @ dquote @ ''Foo'' @ dquote @ '' not recognized'')])"
proof -
  let ?E = "sample_services 10 [] :: sample_catalog services"
  let ?ps = "sample_parameters ''int4'' ''int4'' ''int4pl'' ''eqsel'' ''eqjoinsel''"
  let ?d = "sample_defel ''Foo'' None"
  have unrec: "\<forall>k\<in>set operator_attributes. pg_strcasecmp ?E (defname ?d) k \<noteq> 0"
    using sample_unrecognized [of 10 "[]"] by simp
  have ns: "DefineOperator_namespace ?E [] [''+''] = Inr (2200, ''+'')"
    by (simp add: sample_namespace)
  have pre: "DefineOperator_foreach ?E [] initial_locals [] = (Inr initial_locals, [])"
    by simp
  have run: "DefineOperator ?E [''+''] ?ps [] =
    (Inr \<lparr>classId = 2617, objectId = 16384, objectSubId = 0\<rparr>,
     [(''+'', 2200, 23, 23, 177)], [])"
    by (simp add: sample_run)
  note T = DefineOperator_unrecognized_attribute [OF unrec, of _ "[''+'']" "[]" ?ps "[]"]
  from T [THEN conjunct2, THEN conjunct1] run
  have r: "fst (DefineOperator ?E [''+''] (?d # ?ps) []) =
    Inr \<lparr>classId = 2617, objectId = 16384, objectSubId = 0\<rparr>"
    by simp
  from T [THEN conjunct2, THEN conjunct2, THEN conjunct1] run
  have c: "fst (snd (DefineOperator ?E [''+''] (?d # ?ps) [])) = [(''+'', 2200, 23, 23, 177)]"
    by simp
  from T [THEN conjunct2, THEN conjunct2, THEN conjunct2, rule_format, OF conjI, OF ns pre] run
  have w: "snd (snd (DefineOperator ?E [''+''] (?d # ?ps) [])) =
    [attribute_not_recognized ''Foo'']"
    by simp
  from r c w have "DefineOperator ?E [''+''] (?d # ?ps) [] =
    (Inr \<lparr>classId = 2617, objectId = 16384, objectSubId = 0\<rparr>,
     [(''+'', 2200, 23, 23, 177)], [attribute_not_recognized ''Foo''])"
    by (cases "DefineOperator ?E [''+''] (?d # ?ps) []") simp
  with unrec show ?thesis
    by (simp add: list_all_iff attribute_not_recognized_def)
qed

subsection \<open>Operand types declared SETOF\<close>

text \<open>
  A left or right argument whose type name is declared \<open>SETOF\<close> ends the parameter loop
  with the error of lines 108 and 116; the warnings reported so far stay.
\<close>

lemma foreach_setof:
  assumes pre: "DefineOperator_foreach E pre L ws = (Inr L1, ws1)"
    and arg: "pg_strcasecmp E (defname defel) ''leftarg'' = 0
              \<or> pg_strcasecmp E (defname defel) ''rightarg'' = 0"
    and tn: "defGetTypeName E defel = Inr tn"
    and setof: "setof tn"
  shows "DefineOperator_foreach E (pre @ defel # post) L ws = (Inl setof_not_allowed, ws1)"
proof -
  from arg tn setof have "DefineOperator_defel E defel L1 = Inl setof_not_allowed"
    by (auto simp add: DefineOperator_defel_def)
  with pre show ?thesis by (simp add: foreach_append)
qed

text \<open>
  The command then ends with that error and the catalog unchanged, whatever routine
  stands for \<open>LookupFuncName\<close>: the underlying function is not looked up.
\<close>

lemma DefineOperator_setof:
  assumes ns: "DefineOperator_namespace E cat names = Inr x"
    and pre: "DefineOperator_foreach E pre initial_locals [] = (Inr L1, ws1)"
    and arg: "pg_strcasecmp E (defname defel) ''leftarg'' = 0
              \<or> pg_strcasecmp E (defname defel) ''rightarg'' = 0"
    and tn: "defGetTypeName E defel = Inr tn"
    and setof: "setof tn"
  shows "DefineOperator (E\<lparr>LookupFuncName := lookup\<rparr>) names (pre @ defel # post) cat =
    (Inl (ereport_ERROR ERRCODE_INVALID_FUNCTION_DEFINITION
            ''SETOF type not allowed for operator__ argument''), cat, ws1)"
proof -
  let ?E = "E\<lparr>LookupFuncName := lookup\<rparr>"
  have step: "DefineOperator_defel ?E d L = DefineOperator_defel E d L" for d L
    by (simp add: DefineOperator_defel_def)
  have loop: "DefineOperator_foreach ?E pl L ws = DefineOperator_foreach E pl L ws" for pl L ws
    by (induction pl arbitrary: L ws) (simp_all add: step split: sum.splits)
  have "DefineOperator_namespace ?E cat names = DefineOperator_namespace E cat names"
    by (simp add: DefineOperator_namespace_def Let_def split: sum.splits prod.splits)
  with ns have ns': "DefineOperator_namespace ?E cat names = Inr x"
    by simp
  have "DefineOperator_foreach ?E (pre @ defel # post) initial_locals [] =
    (Inl setof_not_allowed, ws1)"
    using foreach_setof [OF pre arg tn setof] by (simp add: loop)
  with ns' show ?thesis
    by (cases x) (simp add: DefineOperator_foreach_error setof_not_allowed_def)
qed

text \<open>
  Claim C9. On the sample catalog, the command with a left argument of type
  \<open>SETOF int4\<close> ends with the error \<open>ERRCODE_INVALID_FUNCTION_DEFINITION\<close> before the
  function is looked up. The message of the error is the string of lines 110 and 118 of
  the source, which reads \<open>operator__\<close> where the claim reads \<open>operator\<close>.
\<close>

theorem DefineOperator_setof_message:
  "DefineOperator (sample_services 10 []) [''+'']
     [sample_defel ''leftarg'' (sample_type ''int4'' True),
      sample_defel ''procedure'' (Some (ArgString ''int4um''))] [] =
     (Inl (ereport_ERROR ERRCODE_INVALID_FUNCTION_DEFINITION
             ''SETOF type not allowed for operator__ argument''), [], [])
   \<and> fst (DefineOperator (sample_services 10 []) [''+'']
     [sample_defel ''leftarg'' (sample_type ''int4'' True),
      sample_defel ''procedure'' (Some (ArgString ''int4um''))] []) \<noteq>
     Inl (ereport_ERROR ERRCODE_INVALID_FUNCTION_DEFINITION
             ''SETOF type not allowed for operator argument'')"
proof -
  let ?E = "sample_services 10 [] :: sample_catalog services"
  have ns: "DefineOperator_namespace ?E [] [''+''] = Inr (2200, ''+'')"
    by (simp add: sample_namespace)
  have pre: "DefineOperator_foreach ?E [] initial_locals [] = (Inr initial_locals, [])"
    by simp
  have same: "?E\<lparr>LookupFuncName := LookupFuncName ?E\<rparr> = ?E"
    by simp
  from DefineOperator_setof [OF ns pre, of "sample_defel ''leftarg'' (sample_type ''int4'' True)"
      "\<lparr>tn_names = [''int4''], setof = True\<rparr>" "LookupFuncName ?E"
      "[sample_defel ''procedure'' (Some (ArgString ''int4um''))]"]
  have "DefineOperator ?E [''+'']
     [sample_defel ''leftarg'' (sample_type ''int4'' True),
      sample_defel ''procedure'' (Some (ArgString ''int4um''))] [] =
     (Inl (ereport_ERROR ERRCODE_INVALID_FUNCTION_DEFINITION
             ''SETOF type not allowed for operator__ argument''), [], [])"
    by (simp add: same)
  then show ?thesis by simp
qed

section \<open>Properties of the traversal engine\<close>

subsection \<open>The walk follows the traversal order\<close>

lemma scan_append:
  "scan p (xs @ ys) visited =
    (case scan p xs visited of
       Inl e \<Rightarrow> Inl e
     | Inr (True, v) \<Rightarrow> Inr (True, v)
     | Inr (False, v) \<Rightarrow> scan p ys v)"
  by (induction xs arbitrary: visited) auto

lemma walker_scan:
  "expression_tree_walker t (visiting p) visited = scan p (traversal_order t) visited"
  "walk_slots ss (visiting p) visited = scan p (preorder_slots ss) visited"
  "walk_slot s (visiting p) visited = scan p (preorder_slot s) visited"
  "walk_nodes ns (visiting p) visited = scan p (preorder_nodes ns) visited"
  "walk_pairs ps (visiting p) visited = scan p (preorder_pairs ps) visited"
proof (induction t "visiting p" visited and ss "visiting p" visited and s "visiting p" visited
    and ns "visiting p" visited and ps "visiting p" visited
    rule: expression_tree_walker_walk_slots_walk_slot_walk_nodes_walk_pairs.induct)
  case (1 c)
  then show ?case by (simp add: traversal_order_def)
next
  case (2 tag fs ss c)
  then show ?case by (simp add: traversal_order_def visiting_def)
next
  case (3 c)
  then show ?case by simp
next
  case (4 s ss c)
  then show ?case by (simp add: scan_append split: sum.splits prod.splits bool.splits)
next
  case (5 n c)
  then show ?case by (cases n) (simp_all add: traversal_order_def)
next
  case (6 ns c)
  then show ?case by simp
next
  case (7 ps c)
  then show ?case by simp
next
  case (8 c)
  then show ?case by simp
next
  case (9 n ns c)
  then show ?case
    by (simp add: scan_append traversal_order_def split: sum.splits prod.splits bool.splits)
next
  case (10 c)
  then show ?case by simp
next
  case (11 a b ps c)
  have a: "expression_tree_walker (Some a) (visiting p) c = scan p (preorder a) c"
    using "11.hyps"(1) by (simp add: traversal_order_def)
  show ?case
  proof (cases "scan p (preorder a) c")
    case (Inl e)
    with a show ?thesis by (simp add: scan_append)
  next
    case (Inr r)
    obtain found c' where r: "r = (found, c')" by (cases r)
    show ?thesis
    proof (cases found)
      case True
      with a Inr r show ?thesis by (simp add: scan_append)
    next
      case False
      with a Inr r have a': "expression_tree_walker (Some a) (visiting p) c = Inr (False, c')"
        by simp
      have b: "expression_tree_walker (Some b) (visiting p) c' = scan p (preorder b) c'"
        using "11.hyps"(2) [OF a' refl] by (simp add: traversal_order_def)
      show ?thesis
      proof (cases "scan p (preorder b) c'")
        case (Inl e)
        with a' b Inr r False show ?thesis by (simp add: scan_append)
      next
        case inr2: (Inr r2)
        obtain found2 c2 where r2: "r2 = (found2, c2)" by (cases r2)
        show ?thesis
        proof (cases found2)
          case True
          with a' b Inr r False inr2 r2 show ?thesis by (simp add: scan_append)
        next
          case f2: False
          with b inr2 r2
          have b': "expression_tree_walker (Some b) (visiting p) c' = Inr (False, c2)"
            by simp
          have "walk_pairs ps (visiting p) c2 = scan p (preorder_pairs ps) c2"
            using "11.hyps"(3) [OF a' refl _ b' refl] by simp
          with a' b' Inr r False inr2 r2 f2 show ?thesis by (simp add: scan_append)
        qed
      qed
    qed
  qed
qed

lemma scan_first_match:
  assumes "p m" and "\<forall>n\<in>set pre. \<not> p n \<and> recognized (nodeTag n)"
  shows "scan p (pre @ m # post) visited = Inr (True, visited @ pre @ [m])"
  using assms by (induction pre arbitrary: visited) auto

lemma scan_no_match:
  assumes "\<forall>n\<in>set xs. \<not> p n \<and> recognized (nodeTag n)"
  shows "scan p xs visited = Inr (False, visited @ xs)"
  using assms by (induction xs arbitrary: visited) auto

text \<open>
  A node of an unrecognized kind that the callback declines ends the walk with the
  internal error; an unrecognized attribute of \<open>DefineOperator\<close> is a warning.
\<close>

lemma expression_tree_walker_unrecognized:
  "\<not> recognized tag \<Longrightarrow> w (Node tag fs ss) c = (False, c1)
    \<Longrightarrow> expression_tree_walker (Some (Node tag fs ss)) w c = Inl (unrecognized_node_type tag)"
  by simp

subsection \<open>Short circuit\<close>

lemma walk_slots_append:
  "walk_slots (xs @ ys) w c = or_else (walk_slots xs w c) (walk_slots ys w)"
  by (induction xs arbitrary: c) (auto simp add: or_else_def split: sum.splits bool.splits)

lemma walk_nodes_append:
  "walk_nodes (xs @ ys) w c = or_else (walk_nodes xs w c) (walk_nodes ys w)"
  by (induction xs arbitrary: c) (auto simp add: or_else_def split: sum.splits bool.splits)

text \<open>
  Claim C2. The default dispatch of \<open>expression_tree_walker\<close> goes through the child
  slots of a node, and through the members of a slot, in their order and combines the
  subwalks with a short-circuiting OR, for every callback: when the slots, or the nodes,
  before one have all returned false and the walk of that one returns true, the whole walk
  returns true with the context that subwalk left, whatever comes after it; the later
  siblings are not walked. For the callback that answers with a predicate \<open>p\<close> and records
  the nodes it is given: if \<open>x\<close> is the first node of the tree, in traversal order, that
  \<open>p\<close> holds of, the walk returns true and the callback has been given exactly the nodes
  up to \<open>x\<close>, so that no node after the match is visited.
\<close>

theorem expression_tree_walker_short_circuit:
  "(\<forall>c1 c2. walk_slots before w c = Inr (False, c1) \<and> walk_slot s w c1 = Inr (True, c2)
      \<longrightarrow> walk_slots (before @ s # after) w c = Inr (True, c2))
   \<and> (\<forall>c1 c2. walk_nodes ns w c = Inr (False, c1)
        \<and> expression_tree_walker (Some n) w c1 = Inr (True, c2)
      \<longrightarrow> walk_nodes (ns @ n # ms) w c = Inr (True, c2))
   \<and> (traversal_order t = pre @ x # post \<and> p x
        \<and> (\<forall>y\<in>set pre. \<not> p y \<and> recognized (nodeTag y))
      \<longrightarrow> expression_tree_walker t (visiting p) visited = Inr (True, visited @ pre @ [x]))"
proof (intro conjI allI impI; elim conjE)
  fix c1 c2
  assume "walk_slots before w c = Inr (False, c1)" and "walk_slot s w c1 = Inr (True, c2)"
  then show "walk_slots (before @ s # after) w c = Inr (True, c2)"
    by (simp add: walk_slots_append or_else_def)
next
  fix c1 c2
  assume "walk_nodes ns w c = Inr (False, c1)"
    and "expression_tree_walker (Some n) w c1 = Inr (True, c2)"
  then show "walk_nodes (ns @ n # ms) w c = Inr (True, c2)"
    by (simp add: walk_nodes_append or_else_def)
next
  assume "traversal_order t = pre @ x # post" and "p x"
    and "\<forall>y\<in>set pre. \<not> p y \<and> recognized (nodeTag y)"
  then show "expression_tree_walker t (visiting p) visited = Inr (True, visited @ pre @ [x])"
    by (simp add: walker_scan scan_first_match)
qed

lemma sample_tree_order:
  "traversal_order (Some sample_tree) =
    [sample_tree,
     sample_op 521 [sample_var 1 1, sample_const 0], sample_var 1 1, sample_const 0,
     sample_const 10,
     sample_op 97 [sample_var 1 1, sample_const 0], sample_var 1 1, sample_const 0,
     sample_const 20,
     sample_const 30]"
  by (simp add: traversal_order_def sample_tree_def sample_case_def sample_op_def
      sample_var_def sample_const_def)

theorem expression_tree_walker_short_circuit_witness:
  "expression_tree_walker (Some sample_tree) (visiting (\<lambda>n. n = sample_const 10)) [] =
    Inr (True,
         [sample_tree, sample_op 521 [sample_var 1 1, sample_const 0], sample_var 1 1,
          sample_const 0, sample_const 10])"
proof -
  let ?pre = "[sample_tree, sample_op 521 [sample_var 1 1, sample_const 0], sample_var 1 1,
    sample_const 0]"
  let ?post = "[sample_op 97 [sample_var 1 1, sample_const 0], sample_var 1 1, sample_const 0,
     sample_const 20, sample_const 30]"
  have order: "traversal_order (Some sample_tree) = ?pre @ sample_const 10 # ?post"
    by (simp add: sample_tree_order)
  have pre: "\<forall>y\<in>set ?pre. \<not> y = sample_const 10 \<and> recognized (nodeTag y)"
    by (simp add: sample_tree_def sample_case_def sample_op_def sample_var_def sample_const_def)
  from expression_tree_walker_short_circuit [THEN conjunct2, THEN conjunct2, rule_format,
      of "Some sample_tree" ?pre "sample_const 10" ?post "\<lambda>n. n = sample_const 10" "[]",
      OF conjI, OF order conjI, OF refl]
    pre
  show ?thesis by simp
qed

subsection \<open>The identity law\<close>

lemma recognized_all_simps [simp]:
  "recognized_all []"
  "recognized_all (n # ns) = (recognized (nodeTag n) \<and> recognized_all ns)"
  "recognized_all (xs @ ys) = (recognized_all xs \<and> recognized_all ys)"
  by (simp_all add: recognized_all_def)

lemma mutate_unchanged:
  fixes m :: "'c mutator"
  shows "(\<And>n c. fst (m n c) = n) \<Longrightarrow> recognized_all (preorder n)
          \<Longrightarrow> \<exists>c'. mutate_node n m c = Inr (n, c')"
    and "(\<And>n c. fst (m n c) = n) \<Longrightarrow> recognized_all (preorder_slots ss)
          \<Longrightarrow> \<exists>c'. mutate_slots ss m c = Inr (ss, c')"
    and "(\<And>n c. fst (m n c) = n) \<Longrightarrow> recognized_all (preorder_slot s)
          \<Longrightarrow> \<exists>c'. mutate_slot s m c = Inr (s, c')"
    and "(\<And>n c. fst (m n c) = n) \<Longrightarrow> recognized_all (preorder_nodes ns)
          \<Longrightarrow> \<exists>c'. mutate_nodes ns m c = Inr (ns, c')"
    and "(\<And>n c. fst (m n c) = n) \<Longrightarrow> recognized_all (preorder_pairs ps)
          \<Longrightarrow> \<exists>c'. mutate_pairs ps m c = Inr (ps, c')"
proof (induction n m c and ss m c and s m c and ns m c and ps m c
    rule: mutate_node_mutate_slots_mutate_slot_mutate_nodes_mutate_pairs.induct)
  case (1 tag fs ss m c)
  note id = "1.prems"(1)
  obtain c1 where cb: "m (Node tag fs ss) c = (Node tag fs ss, c1)"
    using id [of "Node tag fs ss" c] by (cases "m (Node tag fs ss) c") simp
  from "1.prems"(2) have tag: "recognized tag" and rest: "recognized_all (preorder_slots ss)"
    by simp_all
  from "1.IH" [OF cb [symmetric] _ tag id rest] obtain c2 where
    "mutate_slots ss m c1 = Inr (ss, c2)" by auto
  with cb tag show ?case by simp
next
  case (2 m c)
  then show ?case by simp
next
  case (3 s ss m c)
  note id = "3.prems"(1)
  from "3.prems"(2) have s: "recognized_all (preorder_slot s)"
    and ss: "recognized_all (preorder_slots ss)" by simp_all
  from "3.IH"(1) [OF id s] obtain c1 where s': "mutate_slot s m c = Inr (s, c1)" by auto
  from "3.IH"(2) [OF s' refl id ss] obtain c2 where "mutate_slots ss m c1 = Inr (ss, c2)"
    by auto
  with s' show ?case by simp
next
  case (4 m c)
  then show ?case by simp
next
  case (5 n m c)
  from "5.prems"(2) have "recognized_all (preorder n)" by simp
  from "5.IH" [OF "5.prems"(1) this] obtain c1 where "mutate_node n m c = Inr (n, c1)" by auto
  then show ?case by simp
next
  case (6 ns m c)
  from "6.prems"(2) have "recognized_all (preorder_nodes ns)" by simp
  from "6.IH" [OF "6.prems"(1) this] obtain c1 where "mutate_nodes ns m c = Inr (ns, c1)"
    by auto
  then show ?case by simp
next
  case (7 ps m c)
  from "7.prems"(2) have "recognized_all (preorder_pairs ps)" by simp
  from "7.IH" [OF "7.prems"(1) this] obtain c1 where "mutate_pairs ps m c = Inr (ps, c1)"
    by auto
  then show ?case by simp
next
  case (8 m c)
  then show ?case by simp
next
  case (9 n ns m c)
  note id = "9.prems"(1)
  from "9.prems"(2) have n: "recognized_all (preorder n)"
    and ns: "recognized_all (preorder_nodes ns)" by simp_all
  from "9.IH"(1) [OF id n] obtain c1 where n': "mutate_node n m c = Inr (n, c1)" by auto
  from "9.IH"(2) [OF n' refl id ns] obtain c2 where "mutate_nodes ns m c1 = Inr (ns, c2)"
    by auto
  with n' show ?case by simp
next
  case (10 m c)
  then show ?case by simp
next
  case (11 a b ps m c)
  note id = "11.prems"(1)
  from "11.prems"(2) have a: "recognized_all (preorder a)" and b: "recognized_all (preorder b)"
    and ps: "recognized_all (preorder_pairs ps)" by simp_all
  from "11.IH"(1) [OF id a] obtain c1 where a': "mutate_node a m c = Inr (a, c1)" by auto
  from "11.IH"(2) [OF a' refl id b] obtain c2 where b': "mutate_node b m c1 = Inr (b, c2)"
    by auto
  from "11.IH"(3) [OF a' refl b' refl id ps] obtain c3 where
    "mutate_pairs ps m c2 = Inr (ps, c3)" by auto
  with a' b' show ?case by simp
qed

lemma mutate_identity:
  fixes c :: "'c"
  shows "recognized_all (preorder n) \<Longrightarrow> mutate_node n identity_mutator c = Inr (n, c)"
    and "recognized_all (preorder_slots ss) \<Longrightarrow> mutate_slots ss identity_mutator c = Inr (ss, c)"
    and "recognized_all (preorder_slot s) \<Longrightarrow> mutate_slot s identity_mutator c = Inr (s, c)"
    and "recognized_all (preorder_nodes ns) \<Longrightarrow> mutate_nodes ns identity_mutator c = Inr (ns, c)"
    and "recognized_all (preorder_pairs ps) \<Longrightarrow> mutate_pairs ps identity_mutator c = Inr (ps, c)"
  by (induction n "identity_mutator :: 'c mutator" c and ss "identity_mutator :: 'c mutator" c
      and s "identity_mutator :: 'c mutator" c and ns "identity_mutator :: 'c mutator" c
      and ps "identity_mutator :: 'c mutator" c
      rule: mutate_node_mutate_slots_mutate_slot_mutate_nodes_mutate_pairs.induct)
    (simp_all add: identity_mutator_def)

text \<open>
  Claim C3. For every well-formed tree, \<open>expression_tree_mutator\<close> with the identity
  callback returns the tree itself, with the context unchanged; and so does every callback
  that returns the node it is given, whatever it does to its context.
\<close>

theorem expression_tree_mutator_identity:
  "(well_formed t \<longrightarrow> expression_tree_mutator t identity_mutator c = Inr (t, c))
   \<and> (well_formed t \<and> (\<forall>n c. fst (m n c) = n)
        \<longrightarrow> (\<exists>c'. expression_tree_mutator t m c = Inr (t, c')))"
proof (intro conjI impI; (elim conjE)?)
  assume "well_formed t"
  then show "expression_tree_mutator t identity_mutator c = Inr (t, c)"
    by (cases t)
      (simp_all add: expression_tree_mutator_def well_formed_def traversal_order_def
        mutate_identity)
next
  assume wf: "well_formed t" and id: "\<forall>n c. fst (m n c) = n"
  show "\<exists>c'. expression_tree_mutator t m c = Inr (t, c')"
  proof (cases t)
    case None
    then show ?thesis by (simp add: expression_tree_mutator_def)
  next
    case (Some n)
    with wf have "recognized_all (preorder n)"
      by (simp add: well_formed_def traversal_order_def)
    from mutate_unchanged(1) [of m, OF _ this, of c] id obtain c' where
      "mutate_node n m c = Inr (n, c')" by auto
    with Some show ?thesis by (simp add: expression_tree_mutator_def)
  qed
qed

theorem expression_tree_mutator_identity_witness:
  "well_formed (Some sample_tree)
   \<and> expression_tree_mutator (Some sample_tree) identity_mutator (0 :: nat) =
       Inr (Some sample_tree, 0)"
proof -
  have wf: "well_formed (Some sample_tree)"
    unfolding well_formed_def
    by (subst sample_tree_order)
      (simp add: sample_tree_def sample_case_def sample_op_def sample_var_def
        sample_const_def)
  from expression_tree_mutator_identity [THEN conjunct1, rule_format, OF wf] wf
  show ?thesis by simp
qed

subsection \<open>The traversals of a well-formed tree return\<close>

lemma walk_total:
  fixes w :: "'c walker"
  shows "recognized_all (traversal_order t) \<Longrightarrow> \<exists>r. expression_tree_walker t w c = Inr r"
    and "recognized_all (preorder_slots ss) \<Longrightarrow> \<exists>r. walk_slots ss w c = Inr r"
    and "recognized_all (preorder_slot s) \<Longrightarrow> \<exists>r. walk_slot s w c = Inr r"
    and "recognized_all (preorder_nodes ns) \<Longrightarrow> \<exists>r. walk_nodes ns w c = Inr r"
    and "recognized_all (preorder_pairs ps) \<Longrightarrow> \<exists>r. walk_pairs ps w c = Inr r"
proof (induction t w c and ss w c and s w c and ns w c and ps w c
    rule: expression_tree_walker_walk_slots_walk_slot_walk_nodes_walk_pairs.induct)
  case (1 w c)
  then show ?case by auto
next
  case (2 tag fs ss w c)
  then show ?case
    by (cases "w (Node tag fs ss) c"; cases "fst (w (Node tag fs ss) c)")
      (auto simp add: traversal_order_def)
next
  case (3 w c)
  then show ?case by auto
next
  case (4 s ss w c)
  from "4.prems" have s: "recognized_all (preorder_slot s)"
    and ss: "recognized_all (preorder_slots ss)" by simp_all
  from "4.IH"(1) [OF s] obtain found c1 where s': "walk_slot s w c = Inr (found, c1)" by auto
  show ?case
  proof (cases found)
    case True
    with s' show ?thesis by auto
  next
    case False
    then have f: "found = False" by simp
    from s' f "4.IH"(2) [OF s' refl f ss] show ?thesis by auto
  qed
next
  case (5 n w c)
  then show ?case by (cases n) (auto simp add: traversal_order_def)
next
  case (6 ns w c)
  then show ?case by auto
next
  case (7 ps w c)
  then show ?case by auto
next
  case (8 w c)
  then show ?case by auto
next
  case (9 n ns w c)
  from "9.prems" have n: "recognized_all (traversal_order (Some n))"
    and ns: "recognized_all (preorder_nodes ns)" by (simp_all add: traversal_order_def)
  from "9.IH"(1) [OF n] obtain found c1 where
    n': "expression_tree_walker (Some n) w c = Inr (found, c1)" by auto
  show ?case
  proof (cases found)
    case True
    with n' show ?thesis by auto
  next
    case False
    then have f: "found = False" by simp
    from n' f "9.IH"(2) [OF n' refl f ns] show ?thesis by auto
  qed
next
  case (10 w c)
  then show ?case by auto
next
  case (11 a b ps w c)
  from "11.prems" have a: "recognized_all (traversal_order (Some a))"
    and b: "recognized_all (traversal_order (Some b))"
    and ps: "recognized_all (preorder_pairs ps)" by (simp_all add: traversal_order_def)
  from "11.IH"(1) [OF a] obtain fa c1 where
    a': "expression_tree_walker (Some a) w c = Inr (fa, c1)" by auto
  show ?case
  proof (cases fa)
    case True
    with a' show ?thesis by auto
  next
    case False
    then have fa: "fa = False" by simp
    from "11.IH"(2) [OF a' refl fa b] obtain fb c2 where
      b': "expression_tree_walker (Some b) w c1 = Inr (fb, c2)" by auto
    show ?thesis
    proof (cases fb)
      case True
      with a' fa b' show ?thesis by auto
    next
      case False
      then have fb: "fb = False" by simp
      from a' fa b' fb "11.IH"(3) [OF a' refl fa b' refl fb ps] show ?thesis by auto
    qed
  qed
qed

lemma mutate_total:
  fixes m :: "'c mutator"
  shows "recognized_all (preorder n) \<Longrightarrow> \<exists>r. mutate_node n m c = Inr r"
    and "recognized_all (preorder_slots ss) \<Longrightarrow> \<exists>r. mutate_slots ss m c = Inr r"
    and "recognized_all (preorder_slot s) \<Longrightarrow> \<exists>r. mutate_slot s m c = Inr r"
    and "recognized_all (preorder_nodes ns) \<Longrightarrow> \<exists>r. mutate_nodes ns m c = Inr r"
    and "recognized_all (preorder_pairs ps) \<Longrightarrow> \<exists>r. mutate_pairs ps m c = Inr r"
proof (induction n m c and ss m c and s m c and ns m c and ps m c
    rule: mutate_node_mutate_slots_mutate_slot_mutate_nodes_mutate_pairs.induct)
  case (1 tag fs ss m c)
  obtain n' c1 where cb: "m (Node tag fs ss) c = (n', c1)" by (cases "m (Node tag fs ss) c")
  show ?case
  proof (cases "n' = Node tag fs ss")
    case False
    with cb show ?thesis by auto
  next
    case True
    from "1.prems" have tag: "recognized tag" and ss: "recognized_all (preorder_slots ss)"
      by simp_all
    from "1.IH" [OF cb [symmetric] _ tag ss] True obtain r where
      "mutate_slots ss m c1 = Inr r" by auto
    with cb True tag show ?thesis by (cases r) simp
  qed
next
  case (2 m c)
  then show ?case by auto
next
  case (3 s ss m c)
  from "3.prems" have s: "recognized_all (preorder_slot s)"
    and ss: "recognized_all (preorder_slots ss)" by simp_all
  from "3.IH"(1) [OF s] obtain s' c1 where s': "mutate_slot s m c = Inr (s', c1)" by auto
  from "3.IH"(2) [OF s' refl ss] obtain r where "mutate_slots ss m c1 = Inr r" by auto
  with s' show ?case by (cases r) auto
next
  case (4 m c)
  then show ?case by auto
next
  case (5 n m c)
  from "5.prems" have "recognized_all (preorder n)" by simp
  from "5.IH" [OF this] obtain r where "mutate_node n m c = Inr r" by auto
  then show ?case by (cases r) auto
next
  case (6 ns m c)
  from "6.prems" have "recognized_all (preorder_nodes ns)" by simp
  from "6.IH" [OF this] obtain r where "mutate_nodes ns m c = Inr r" by auto
  then show ?case by (cases r) auto
next
  case (7 ps m c)
  from "7.prems" have "recognized_all (preorder_pairs ps)" by simp
  from "7.IH" [OF this] obtain r where "mutate_pairs ps m c = Inr r" by auto
  then show ?case by (cases r) auto
next
  case (8 m c)
  then show ?case by auto
next
  case (9 n ns m c)
  from "9.prems" have n: "recognized_all (preorder n)"
    and ns: "recognized_all (preorder_nodes ns)" by simp_all
  from "9.IH"(1) [OF n] obtain n' c1 where n': "mutate_node n m c = Inr (n', c1)" by auto
  from "9.IH"(2) [OF n' refl ns] obtain r where "mutate_nodes ns m c1 = Inr r" by auto
  with n' show ?case by (cases r) auto
next
  case (10 m c)
  then show ?case by auto
next
  case (11 a b ps m c)
  from "11.prems" have a: "recognized_all (preorder a)" and b: "recognized_all (preorder b)"
    and ps: "recognized_all (preorder_pairs ps)" by simp_all
  from "11.IH"(1) [OF a] obtain a' c1 where a': "mutate_node a m c = Inr (a', c1)" by auto
  from "11.IH"(2) [OF a' refl b] obtain b' c2 where b': "mutate_node b m c1 = Inr (b', c2)"
    by auto
  from "11.IH"(3) [OF a' refl b' refl ps] obtain r where "mutate_pairs ps m c2 = Inr r" by auto
  with a' b' show ?case by (cases r) auto
qed

lemma or_else_total:
  assumes "\<exists>r. a = Inr r" and "\<And>c. \<exists>r. k c = Inr r"
  shows "\<exists>r. or_else a k = Inr r"
proof -
  from assms(1) obtain found c where "a = Inr (found, c)" by auto
  with assms(2) [of c] show ?thesis by (cases found) (auto simp add: or_else_def)
qed

lemma and_then_total:
  assumes "\<exists>r. a = Inr r" and "\<And>x c. \<exists>r. k x c = Inr r"
  shows "\<exists>r. and_then a k = Inr r"
proof -
  from assms(1) obtain x c where "a = Inr (x, c)" by auto
  with assms(2) [of x c] show ?thesis by (auto simp add: and_then_def)
qed

lemma query_expressions_walker_total:
  assumes "recognized_all (expressions_preorder es)"
  shows "\<exists>r. query_expressions_walker es w c = Inr r"
  using assms unfolding query_expressions_walker_def expressions_preorder_def
  by (intro or_else_total walk_total) simp_all

lemma expression_tree_mutator_total:
  assumes "recognized_all (traversal_order t)"
  shows "\<exists>r. expression_tree_mutator t m c = Inr r"
proof (cases t)
  case None
  then show ?thesis by (simp add: expression_tree_mutator_def)
next
  case (Some n)
  with assms have "recognized_all (preorder n)" by (simp add: traversal_order_def)
  from mutate_total(1) [OF this, of m c] obtain r where "mutate_node n m c = Inr r" by auto
  with Some show ?thesis by (cases r) (simp add: expression_tree_mutator_def)
qed

lemma query_expressions_mutator_total:
  assumes "recognized_all (expressions_preorder es)"
  shows "\<exists>r. query_expressions_mutator es m c = Inr r"
  using assms unfolding query_expressions_mutator_def expressions_preorder_def
  by (intro and_then_total mutate_total expression_tree_mutator_total) simp_all

lemma mutate_rows_total:
  "recognized_all (preorder_nodes (concat rows)) \<Longrightarrow> \<exists>r. mutate_rows rows m c = Inr r"
proof (induction rows arbitrary: c)
  case Nil
  then show ?case by simp
next
  case (Cons row rows)
  have concat: "preorder_nodes (xs @ ys) = preorder_nodes xs @ preorder_nodes ys" for xs ys
    by (induction xs) simp_all
  from Cons.prems have row: "recognized_all (preorder_nodes row)"
    and rows: "recognized_all (preorder_nodes (concat rows))" by (simp_all add: concat)
  from mutate_total(4) [OF row, of m c] obtain row' c1 where
    r1: "mutate_nodes row m c = Inr (row', c1)" by auto
  from Cons.IH [OF rows, of c1] obtain r where "mutate_rows rows m c1 = Inr r" by auto
  with r1 show ?case by (cases r) simp
qed

lemma query_walker_total:
  fixes w :: "'c walker"
  shows "recognized_all (query_preorder q) \<Longrightarrow> \<exists>r. query_tree_walker q w c flags = Inr r"
    and "recognized_all (cte_list_preorder ctes) \<Longrightarrow> \<exists>r. cte_list_walker ctes w c flags = Inr r"
    and "recognized_all (range_table_preorder rt)
          \<Longrightarrow> \<exists>r. range_table_walker rt w c flags = Inr r"
    and "recognized_all (rte_preorder e) \<Longrightarrow> \<exists>r. range_table_entry_walker e w c flags = Inr r"
proof (induction q w c flags and ctes w c flags and rt w c flags and e w c flags
    rule: query_tree_walker_cte_list_walker_range_table_walker_range_table_entry_walker.induct)
  case (1 es ctes rt w c flags)
  from "1.prems" have es: "recognized_all (expressions_preorder es)"
    and ctes: "recognized_all (cte_list_preorder ctes)"
    and rt: "recognized_all (range_table_preorder rt)" by simp_all
  from query_expressions_walker_total [OF es, of w c] obtain f1 c1 where
    r1: "query_expressions_walker es w c = Inr (f1, c1)" by auto
  show ?case
  proof (cases f1)
    case True
    with r1 show ?thesis by auto
  next
    case False
    then have f1: "f1 = False" by simp
    let ?ctes = "if flags AND QTW_IGNORE_CTE_SUBQUERIES = 0 then cte_list_walker ctes w c1 flags
      else Inr (False, c1)"
    have "\<exists>r. ?ctes = Inr r"
      using "1.IH"(1) [OF r1 refl f1 _ ctes] by auto
    then obtain f2 c2 where r2: "?ctes = Inr (f2, c2)" by auto
    show ?thesis
    proof (cases f2)
      case True
      with r1 f1 r2 show ?thesis by auto
    next
      case False
      then have f2: "f2 = False" by simp
      have "\<exists>r. (if flags AND QTW_IGNORE_RANGE_TABLE = 0 then range_table_walker rt w c2 flags
          else Inr (False, c2)) = Inr r"
        using "1.IH"(2) [OF r1 refl f1 r2 refl f2 _ rt] by auto
      with r1 f1 r2 f2 show ?thesis by auto
    qed
  qed
next
  case (2 w c flags)
  then show ?case by auto
next
  case (3 ctename ctequery ctes w c flags)
  from "3.prems" have q: "recognized_all (query_preorder ctequery)"
    and ctes: "recognized_all (cte_list_preorder ctes)" by simp_all
  from "3.IH"(1) [OF q] obtain f1 c1 where
    r1: "query_tree_walker ctequery w c flags = Inr (f1, c1)" by auto
  show ?case
  proof (cases f1)
    case True
    with r1 show ?thesis by auto
  next
    case False
    then have f1: "f1 = False" by simp
    from r1 f1 "3.IH"(2) [OF r1 refl f1 ctes] show ?thesis by auto
  qed
next
  case (4 w c flags)
  then show ?case by auto
next
  case (5 r rt w c flags)
  from "5.prems" have r: "recognized_all (rte_preorder r)"
    and rt: "recognized_all (range_table_preorder rt)" by simp_all
  from "5.IH"(1) [OF r] obtain f1 c1 where
    r1: "range_table_entry_walker r w c flags = Inr (f1, c1)" by auto
  show ?case
  proof (cases f1)
    case True
    with r1 show ?thesis by auto
  next
    case False
    then have f1: "f1 = False" by simp
    from r1 f1 "5.IH"(2) [OF r1 refl f1 rt] show ?thesis by auto
  qed
next
  case (6 relid w c flags)
  then show ?case by auto
next
  case (7 q w c flags)
  obtain f1 c1 where ex: "examine_rte (RTE_SUBQUERY q) w c flags = (f1, c1)"
    by (cases "examine_rte (RTE_SUBQUERY q) w c flags")
  from "7.prems" have q: "recognized_all (query_preorder q)" by simp
  show ?case
  proof (cases "f1 \<or> flags AND QTW_IGNORE_RT_SUBQUERIES \<noteq> 0")
    case True
    with ex show ?thesis by (cases f1) auto
  next
    case False
    then have f1: "f1 = False" and fl: "flags AND QTW_IGNORE_RT_SUBQUERIES = 0" by simp_all
    from ex f1 fl "7.IH" [OF ex [symmetric] f1 fl q] show ?thesis by auto
  qed
next
  case (8 l r aliasvars w c flags)
  obtain f1 c1 where ex: "examine_rte (RTE_JOIN l r aliasvars) w c flags = (f1, c1)"
    by (cases "examine_rte (RTE_JOIN l r aliasvars) w c flags")
  from "8.prems" have "recognized_all (preorder_nodes aliasvars)" by simp
  from walk_total(4) [OF this, of w c1] ex show ?case by (cases f1) auto
next
  case (9 fs w c flags)
  obtain f1 c1 where ex: "examine_rte (RTE_FUNCTION fs) w c flags = (f1, c1)"
    by (cases "examine_rte (RTE_FUNCTION fs) w c flags")
  from "9.prems" have "recognized_all (preorder_nodes fs)" by simp
  from walk_total(4) [OF this, of w c1] ex show ?case by (cases f1) auto
next
  case (10 rows w c flags)
  obtain f1 c1 where ex: "examine_rte (RTE_VALUES rows) w c flags = (f1, c1)"
    by (cases "examine_rte (RTE_VALUES rows) w c flags")
  from "10.prems" have "recognized_all (preorder_nodes (concat rows))" by simp
  from walk_total(4) [OF this, of w c1] ex show ?case by (cases f1) auto
next
  case (11 n w c flags)
  then show ?case by auto
qed

lemma query_mutator_total:
  fixes m :: "'c mutator"
  shows "recognized_all (query_preorder q) \<Longrightarrow> \<exists>r. query_tree_mutator q m c flags = Inr r"
    and "recognized_all (cte_list_preorder ctes)
          \<Longrightarrow> \<exists>r. cte_list_mutator ctes m c flags = Inr r"
    and "recognized_all (range_table_preorder rt)
          \<Longrightarrow> \<exists>r. range_table_mutator rt m c flags = Inr r"
    and "recognized_all (rte_preorder e) \<Longrightarrow> \<exists>r. range_table_entry_mutator e m c flags = Inr r"
proof (induction q m c flags and ctes m c flags and rt m c flags and e m c flags
    rule: query_tree_mutator_cte_list_mutator_range_table_mutator_range_table_entry_mutator.induct)
  case (1 es ctes rt m c flags)
  from "1.prems" have es: "recognized_all (expressions_preorder es)"
    and ctes: "recognized_all (cte_list_preorder ctes)"
    and rt: "recognized_all (range_table_preorder rt)" by simp_all
  from query_expressions_mutator_total [OF es, of m c] obtain es' c1 where
    r1: "query_expressions_mutator es m c = Inr (es', c1)" by auto
  let ?ctes = "if flags AND QTW_IGNORE_CTE_SUBQUERIES = 0 then cte_list_mutator ctes m c1 flags
    else Inr (ctes, c1)"
  have "\<exists>r. ?ctes = Inr r"
    using "1.IH"(1) [OF r1 refl _ ctes] by auto
  then obtain ctes' c2 where r2: "?ctes = Inr (ctes', c2)" by auto
  let ?rt = "if flags AND QTW_IGNORE_RANGE_TABLE = 0 then range_table_mutator rt m c2 flags
    else Inr (rt, c2)"
  have "\<exists>r. ?rt = Inr r"
    using "1.IH"(2) [OF r1 refl r2 refl _ rt] by auto
  then obtain rt' c3 where r3: "?rt = Inr (rt', c3)" by auto
  from r1 r2 r3 show ?case by auto
next
  case (2 m c flags)
  then show ?case by auto
next
  case (3 ctename ctequery ctes m c flags)
  from "3.prems" have q: "recognized_all (query_preorder ctequery)"
    and ctes: "recognized_all (cte_list_preorder ctes)" by simp_all
  from "3.IH"(1) [OF q] obtain q' c1 where
    r1: "query_tree_mutator ctequery m c flags = Inr (q', c1)" by auto
  from "3.IH"(2) [OF r1 refl ctes] obtain r where "cte_list_mutator ctes m c1 flags = Inr r"
    by auto
  with r1 show ?case by (cases r) auto
next
  case (4 m c flags)
  then show ?case by auto
next
  case (5 r rt m c flags)
  from "5.prems" have r: "recognized_all (rte_preorder r)"
    and rt: "recognized_all (range_table_preorder rt)" by simp_all
  from "5.IH"(1) [OF r] obtain r' c1 where
    r1: "range_table_entry_mutator r m c flags = Inr (r', c1)" by auto
  from "5.IH"(2) [OF r1 refl rt] obtain x where "range_table_mutator rt m c1 flags = Inr x"
    by auto
  with r1 show ?case by (cases x) auto
next
  case (6 relid m c flags)
  then show ?case by auto
next
  case (7 q m c flags)
  from "7.prems" have q: "recognized_all (query_preorder q)" by simp
  show ?case
  proof (cases "flags AND QTW_IGNORE_RT_SUBQUERIES = 0")
    case True
    from "7.IH" [OF True q] obtain r where
      "query_tree_mutator q m (examine_rte_mutator (RTE_SUBQUERY q) m c flags) flags = Inr r"
      by auto
    with True show ?thesis by (cases r) auto
  next
    case False
    then show ?thesis by auto
  qed
next
  case (8 l r aliasvars m c flags)
  from "8.prems" have "recognized_all (preorder_nodes aliasvars)" by simp
  from mutate_total(4) [OF this, of m "examine_rte_mutator (RTE_JOIN l r aliasvars) m c flags"]
  obtain x where
    "mutate_nodes aliasvars m (examine_rte_mutator (RTE_JOIN l r aliasvars) m c flags) = Inr x"
    by auto
  then show ?case by (cases x) auto
next
  case (9 fs m c flags)
  from "9.prems" have "recognized_all (preorder_nodes fs)" by simp
  from mutate_total(4) [OF this, of m "examine_rte_mutator (RTE_FUNCTION fs) m c flags"]
  obtain x where
    "mutate_nodes fs m (examine_rte_mutator (RTE_FUNCTION fs) m c flags) = Inr x" by auto
  then show ?case by (cases x) auto
next
  case (10 rows m c flags)
  from "10.prems" have "recognized_all (preorder_nodes (concat rows))" by simp
  from mutate_rows_total [OF this, of m "examine_rte_mutator (RTE_VALUES rows) m c flags"]
  obtain x where
    "mutate_rows rows m (examine_rte_mutator (RTE_VALUES rows) m c flags) = Inr x" by auto
  then show ?case by (cases x) auto
next
  case (11 n m c flags)
  then show ?case by auto
qed

subsection \<open>The scope flags\<close>

lemma scope_flag_bits:
  "scope_flags = [2 ^ 0, 2 ^ 1, 2 ^ 2, 2 ^ 3, 2 ^ 4, 2 ^ 5]"
  by (simp add: scope_flags_def QTW_IGNORE_RT_SUBQUERIES_def QTW_IGNORE_CTE_SUBQUERIES_def
      QTW_IGNORE_JOINALIASES_def QTW_IGNORE_RANGE_TABLE_def QTW_EXAMINE_RTES_def
      QTW_DONT_COPY_QUERY_def)

lemma scope_flag_and:
  assumes "f \<in> set scope_flags" and "g \<in> set scope_flags"
  shows "(g AND f \<noteq> 0) = (g = f)"
  using assms by (auto simp add: scope_flag_bits)

lemma or_and_zero: "((a OR b) AND f = 0) = (a AND f = 0 \<and> b AND f = 0)" for a b f :: "32 word"
  by (simp add: bit.conj_disj_distrib2 or_eq_0_iff)

lemma combine_flags_test:
  assumes "set fs \<subseteq> set scope_flags" and "f \<in> set scope_flags"
  shows "(combine_flags fs AND f \<noteq> 0) = (f \<in> set fs)"
  using assms
proof (induction fs)
  case Nil
  then show ?case by (simp add: combine_flags_def)
next
  case (Cons g fs)
  from Cons.prems have g: "g \<in> set scope_flags" and fs: "set fs \<subseteq> set scope_flags"
    by simp_all
  have "combine_flags (g # fs) = g OR combine_flags fs"
    by (simp add: combine_flags_def)
  then have "(combine_flags (g # fs) AND f \<noteq> 0) =
    (g AND f \<noteq> 0 \<or> combine_flags fs AND f \<noteq> 0)"
    by (simp add: or_and_zero)
  also have "\<dots> = (g = f \<or> f \<in> set fs)"
    using Cons.IH [OF fs Cons.prems(2)] scope_flag_and [OF Cons.prems(2) g] by simp
  finally show ?case by auto
qed

text \<open>
  Claim C1. The six scope flags are the six powers of two from \<open>2 ^ 0\<close> to \<open>2 ^ 5\<close>, one
  bit each and no two the same; \<open>QTW_IGNORE_RC_SUBQUERIES\<close> is the bitwise OR of
  \<open>QTW_IGNORE_RT_SUBQUERIES\<close> and \<open>QTW_IGNORE_CTE_SUBQUERIES\<close>; in the OR of any flags, the
  test of a flag finds it set exactly when it is one of them; and on a well-formed query
  \<open>query_tree_walker\<close> and \<open>query_tree_mutator\<close> return a result, not an error, under
  every OR-combination of the flags.
\<close>

theorem scope_flags_compose:
  "scope_flags = [2 ^ 0, 2 ^ 1, 2 ^ 2, 2 ^ 3, 2 ^ 4, 2 ^ 5]
   \<and> distinct scope_flags
   \<and> QTW_IGNORE_RC_SUBQUERIES = QTW_IGNORE_RT_SUBQUERIES OR QTW_IGNORE_CTE_SUBQUERIES
   \<and> (\<forall>fs f. set fs \<subseteq> set scope_flags \<and> f \<in> set scope_flags
          \<longrightarrow> (combine_flags fs AND f \<noteq> 0) = (f \<in> set fs))
   \<and> (\<forall>fs. set fs \<subseteq> set scope_flags \<and> well_formed_query q
          \<longrightarrow> (\<exists>r. query_tree_walker q w c (combine_flags fs) = Inr r)
            \<and> (\<exists>r. query_tree_mutator q m d (combine_flags fs) = Inr r))"
proof (intro conjI allI impI; (elim conjE)?)
  show "scope_flags = [2 ^ 0, 2 ^ 1, 2 ^ 2, 2 ^ 3, 2 ^ 4, 2 ^ 5]"
    by (rule scope_flag_bits)
  show "distinct scope_flags"
    by (simp add: scope_flag_bits)
  show "QTW_IGNORE_RC_SUBQUERIES = QTW_IGNORE_RT_SUBQUERIES OR QTW_IGNORE_CTE_SUBQUERIES"
    by (simp add: QTW_IGNORE_RC_SUBQUERIES_def QTW_IGNORE_RT_SUBQUERIES_def
        QTW_IGNORE_CTE_SUBQUERIES_def)
next
  fix fs f
  assume "set fs \<subseteq> set scope_flags" and "f \<in> set scope_flags"
  then show "(combine_flags fs AND f \<noteq> 0) = (f \<in> set fs)"
    by (rule combine_flags_test)
next
  fix fs
  assume "well_formed_query q"
  then have wf: "recognized_all (query_preorder q)"
    by (simp add: well_formed_query_def)
  from query_walker_total(1) [OF wf]
  show "\<exists>r. query_tree_walker q w c (combine_flags fs) = Inr r" .
  from query_mutator_total(1) [OF wf]
  show "\<exists>r. query_tree_mutator q m d (combine_flags fs) = Inr r" .
qed

lemma sample_query_well_formed: "well_formed_query sample_query"
  by (simp add: well_formed_query_def sample_query_def sample_subquery_def
      expressions_preorder_def no_expressions_def traversal_order_def sample_target_def
      sample_op_def sample_var_def sample_const_def)

theorem scope_flags_compose_witness:
  "set [QTW_IGNORE_RT_SUBQUERIES, QTW_EXAMINE_RTES] \<subseteq> set scope_flags
   \<and> well_formed_query sample_query
   \<and> combine_flags [QTW_IGNORE_RT_SUBQUERIES, QTW_EXAMINE_RTES] = 0x11
   \<and> query_tree_walker sample_query (visiting (\<lambda>n. False)) []
        (combine_flags [QTW_IGNORE_RT_SUBQUERIES, QTW_EXAMINE_RTES]) =
      Inr (False,
           [sample_target 1 (sample_op 551 [sample_var 1 1, sample_const 1]),
            sample_op 551 [sample_var 1 1, sample_const 1], sample_var 1 1, sample_const 1,
            rte_node (RTE_SUBQUERY sample_subquery)])
   \<and> query_tree_walker sample_query (visiting (\<lambda>n. False)) [] (combine_flags []) =
      Inr (False,
           [sample_target 1 (sample_op 551 [sample_var 1 1, sample_const 1]),
            sample_op 551 [sample_var 1 1, sample_const 1], sample_var 1 1, sample_const 1,
            sample_target 1 (sample_var 1 7), sample_var 1 7])"
proof -
  let ?fs = "[QTW_IGNORE_RT_SUBQUERIES, QTW_EXAMINE_RTES]"
  have sub: "set ?fs \<subseteq> set scope_flags"
    by (simp add: scope_flags_def)
  have flags: "combine_flags ?fs = 0x11"
    by (simp add: combine_flags_def QTW_IGNORE_RT_SUBQUERIES_def QTW_EXAMINE_RTES_def)
  have outer: "query_expressions_walker
      (no_expressions
         \<lparr>targetList := [sample_target 1 (sample_op 551 [sample_var 1 1, sample_const 1])]\<rparr>)
      (visiting (\<lambda>n. False)) [] =
    Inr (False, [sample_target 1 (sample_op 551 [sample_var 1 1, sample_const 1]),
            sample_op 551 [sample_var 1 1, sample_const 1], sample_var 1 1, sample_const 1])"
    by (simp add: query_expressions_walker_def no_expressions_def or_else_def visiting_def
        sample_target_def sample_op_def sample_var_def sample_const_def)
  have inner: "query_expressions_walker
      (no_expressions\<lparr>targetList := [sample_target 1 (sample_var 1 7)]\<rparr>)
      (visiting (\<lambda>n. False)) visited =
    Inr (False, visited @ [sample_target 1 (sample_var 1 7), sample_var 1 7])" for visited
    by (simp add: query_expressions_walker_def no_expressions_def or_else_def visiting_def
        sample_target_def sample_var_def)
  have skipped: "query_tree_walker sample_query (visiting (\<lambda>n. False)) [] 0x11 =
      Inr (False,
           [sample_target 1 (sample_op 551 [sample_var 1 1, sample_const 1]),
            sample_op 551 [sample_var 1 1, sample_const 1], sample_var 1 1, sample_const 1,
            rte_node (RTE_SUBQUERY sample_subquery)])"
    by (simp add: sample_query_def outer examine_rte_def visiting_def
        QTW_IGNORE_CTE_SUBQUERIES_def QTW_IGNORE_RANGE_TABLE_def QTW_EXAMINE_RTES_def
        QTW_IGNORE_RT_SUBQUERIES_def)
  have entered: "query_tree_walker sample_query (visiting (\<lambda>n. False)) [] 0 =
      Inr (False,
           [sample_target 1 (sample_op 551 [sample_var 1 1, sample_const 1]),
            sample_op 551 [sample_var 1 1, sample_const 1], sample_var 1 1, sample_const 1,
            sample_target 1 (sample_var 1 7), sample_var 1 7])"
    by (simp add: sample_query_def sample_subquery_def outer inner examine_rte_def)
  from scope_flags_compose [THEN conjunct2, THEN conjunct2, THEN conjunct2, THEN conjunct2,
      rule_format, OF conjI, OF sub sample_query_well_formed,
      of "visiting (\<lambda>n. False)" "[]" identity_mutator "0 :: nat"]
  have "\<exists>r. query_tree_walker sample_query (visiting (\<lambda>n. False)) [] (combine_flags ?fs) = Inr r"
    by simp
  with sub sample_query_well_formed flags skipped entered show ?thesis
    by (simp add: combine_flags_def)
qed

end
